theory Spec2Isabelle
  imports Complex_Main "HOL-Library.Multiset"
begin

section \<open>Data model\<close>

text \<open>
  Cards, players and decks are plain JavaScript objects in the engine.  Colours, card ids
  and player ids are strings.  Cash, prices and the cash of a trade are JavaScript numbers
  that the engine only ever adds, subtracts and compares, modelled as unbounded integers.
  The amount of a bid, which the engine takes from the action as it comes, is modelled as
  the number it may be: a real, or \<open>None\<close> for \<open>NaN\<close>, which a missing amount (\<open>undefined\<close>)
  behaves like in every comparison and subtraction the engine makes.
\<close>

definition num_le :: "real option \<Rightarrow> real option \<Rightarrow> bool" where
  "num_le x y = (case (x, y) of (Some a, Some b) \<Rightarrow> a \<le> b | _ \<Rightarrow> False)"

definition num_lt :: "real option \<Rightarrow> real option \<Rightarrow> bool" where
  "num_lt x y = (case (x, y) of (Some a, Some b) \<Rightarrow> a < b | _ \<Rightarrow> False)"

definition wholeNumber :: "real option \<Rightarrow> int option" where
  "wholeNumber x =
     (case x of None \<Rightarrow> None | Some r \<Rightarrow> if r = of_int \<lfloor>r\<rfloor> then Some \<lfloor>r\<rfloor> else None)"

record card =
  card_id :: string
  color :: string

record deck =
  drawPile :: "card list"
  discardPile :: "card list"

text \<open>
  A goal card carries three pre-parsed facets in its \<open>metadata\<close>.  The class file of the
  goal card is not among the sources; the fields are the ones the managers, the goal
  checker and the reward system read.  \<open>amount\<close>, \<open>discount\<close> and \<open>bonus\<close> may be absent.
\<close>

datatype goal_type =
  PAIR | PAIR_PLUS_SPECIFIC | THREE_OF_A_KIND | THREE_DIFFERENT | NONE_OF | TWO_PAIR | ONE_OF_EVERY

record goal_parsed =
  goalType :: goal_type
  requirements :: "(string \<times> int) list"
  avoidColor :: string

datatype reward_type =
    GAIN_CASH | STEAL_CASH | ADJUST_STOCK | LOOK_AT_HAND | PEEK_AND_PLACE | SWAP_WITH_DECK
  | REARRANGE_TOP_5 | TAKE_AND_GIVE_CARD | BUY_WITH_DISCOUNT | SELL_BONUS | GAIN_LOWEST_STOCK
  | OTHER_REWARD

record reward_parsed =
  rewardType :: reward_type
  amount :: "int option"
  discount :: "int option"
  bonus :: "int option"
  requiresTarget :: bool
  requiresChoice :: bool

record goal_card =
  goal_id :: string
  revealed :: bool
  stockChangeParsed :: "(string \<times> int) list"
  goalParsed :: "goal_parsed option"
  rewardParsed :: reward_parsed

record player =
  player_id :: string
  name :: string
  cash :: int
  hand :: "card list"
  goalCards :: "goal_card list"
  sellBonus :: int

datatype phase = AUCTION | TRADING | GOAL_RESOLUTION | SELL

text \<open>
  The auction's working state.  \<open>activeBidders\<close> is a JavaScript \<open>Set\<close>: a list in
  insertion order in which a repeated entry counts once (\<open>set_size\<close>, \<open>set_first\<close>).
  The write-only field \<open>startingPlayer\<close> is left out.
\<close>

record auction_state =
  cardsToAuction :: "card list"
  currentCardIndex :: nat
  currentCard :: "card option"
  currentBid :: "real option"
  currentHighBidder :: "string option"
  activeBidders :: "string list"
  currentPlayerIndex :: nat
  lastRaiserIndex :: "nat option"

datatype offer_status = ACTIVE | CANCELLED | ACCEPTED

record card_request =
  req_color :: string
  req_count :: int

record offer =
  offerId :: string
  offeringPlayer :: string
  offering_cards :: "string list"
  offering_cash :: int
  requesting_cards :: "card_request list"
  requesting_cash :: int
  status :: offer_status

record trading_state =
  activeOffers :: "offer list"
  timeRemaining :: int

record revealed_goal =
  rg_playerId :: string
  rg_goalCard :: goal_card
  goalMet :: bool
  rewardExecuted :: bool

record pending_reward =
  pr_playerId :: string
  pr_rewardType :: reward_type
  pr_goalCard :: goal_card

record goal_resolution_state =
  gr_currentPlayerIndex :: nat
  revealedGoals :: "revealed_goal list"
  pendingRewardExecution :: "pending_reward option"

record selection =
  cardsToSell :: "string list"
  committed :: bool

record sell_state =
  playerSelections :: "(string \<times> selection) list"
  allCommitted :: bool

text \<open>
  Three things the engine can put into its state have no place in the records above: the
  value \<open>null\<close> as an entry of a hand or of the discard pile (an auction that has no current
  card), a cash amount that is not a whole number (a bid that was not one), and an entry
  of the price object that is not a number (\<open>applyChanges\<close>).  The model keeps them apart
  from the cards, the cash and the prices: \<open>nonNumberPrices\<close> lists the keys of the price
  object that hold something other than a number, and \<open>anomalies\<close> logs, in the order of the
  calls, every \<open>null\<close> that was pushed and every cash adjustment by an amount that is not a
  whole number (the call is logged with the player and the amount, and \<open>cash\<close> stays as it
  was).  A state with an entry in the log departs from the engine's state where the entry
  says.
\<close>

datatype anomaly =
    NullInHand string
  | NullOnDiscardPile
  | CashAdjustedBy string "real option"

text \<open>
  The game state.  \<open>phaseState.auction\<close>, \<open>.trading\<close>, \<open>.goalResolution\<close> and \<open>.sell\<close>
  are the four optional fields (\<open>None\<close> is \<open>null\<close>); \<open>totalRounds\<close> and \<open>tradingDuration\<close> are
  the two entries of \<open>config\<close> that the engine reads after setup; \<open>gameCompleted\<close> is
  \<open>status === 'completed'\<close>.  The identifier of the game and the action history are left
  out.
\<close>

record game_state =
  players :: "player list"
  stockPrices :: "string \<rightharpoonup> int"
  resourceDeck :: deck
  goalDeck :: "goal_card list"
  currentPhase :: "phase option"
  currentRound :: nat
  totalRounds :: nat
  tradingDuration :: int
  gameCompleted :: bool
  auction :: "auction_state option"
  trading :: "trading_state option"
  goalResolution :: "goal_resolution_state option"
  sell :: "sell_state option"
  turnOrder :: "string list"
  dealerIndex :: nat
  nonNumberPrices :: "string list"
  anomalies :: "anomaly list"

definition COLORS :: "string list" where
  "COLORS = [''Blue'', ''Orange'', ''Yellow'', ''Purple'']"

datatype error =
    CountMismatch nat nat
  | CardIdNotFound string
  | DeckEmpty

section \<open>StockPriceSystem\<close>

text \<open>The two bounds the constructor stores; \<open>maxPrice = None\<close> is JavaScript's \<open>null\<close>.\<close>

record price_config =
  minPrice :: int
  maxPrice :: "int option"

definition constrainPrice :: "price_config \<Rightarrow> int \<Rightarrow> int" where
  "constrainPrice cfg price =
     (if price < minPrice cfg then minPrice cfg
      else if maxPrice cfg \<noteq> None \<and> price > the (maxPrice cfg) then the (maxPrice cfg)
      else price)"

text \<open>
  The price object: its numeric entries, and the keys of its entries that are not numbers.
  A key is in one of the two at most.
\<close>

type_synonym price_object = "(string \<rightharpoonup> int) \<times> string list"

text \<open>
  The names that every object inherits from \<open>Object.prototype\<close>.  Reading one of them from
  the price object yields a function, not \<open>undefined\<close>.  (\<open>__proto__\<close> is inherited too, but
  assigning a string to it stores nothing.)
\<close>

definition objectPrototypeKeys :: "string list" where
  "objectPrototypeKeys =
     [''constructor'', ''hasOwnProperty'', ''isPrototypeOf'', ''propertyIsEnumerable'',
      ''toLocaleString'', ''toString'', ''valueOf'', ''__defineGetter__'', ''__defineSetter__'',
      ''__lookupGetter__'', ''__lookupSetter__'']"

text \<open>
  \<open>applyChanges\<close> copies the price object and walks \<open>Object.entries(changes)\<close>.  The test
  \<open>newPrices[color] !== undefined\<close> lets a key pass that has a price, and also a key that has
  none but is inherited: there the sum of a function and the change is a string, which
  \<open>constrainPrice\<close> returns as it is (no comparison with a bound holds), and the string is
  stored under the key.  An entry that is not a number stays one.  Any other key without a
  price is skipped.
\<close>

definition applyChange :: "price_config \<Rightarrow> string \<times> int \<Rightarrow> price_object \<Rightarrow> price_object" where
  "applyChange cfg entry obj =
     (case obj of (newPrices, others) \<Rightarrow>
        (case newPrices (fst entry) of
           Some p \<Rightarrow> (newPrices(fst entry \<mapsto> constrainPrice cfg (p + snd entry)), others)
         | None \<Rightarrow>
             if fst entry \<in> set objectPrototypeKeys \<and> fst entry \<notin> set others
             then (newPrices, others @ [fst entry])
             else (newPrices, others)))"

definition applyChanges :: "price_config \<Rightarrow> price_object \<Rightarrow> (string \<times> int) list \<Rightarrow> price_object" where
  "applyChanges cfg currentPrices changes = fold (applyChange cfg) changes currentPrices"



section \<open>DeckManager\<close>

definition draw :: "deck \<Rightarrow> nat \<Rightarrow> card list \<times> deck" where
  "draw d cnt =
     (let cnt' = (if length (drawPile d) < cnt then length (drawPile d) else cnt)
      in (take cnt' (drawPile d), d\<lparr>drawPile := drop cnt' (drawPile d)\<rparr>))"

definition discard :: "deck \<Rightarrow> card list \<Rightarrow> deck" where
  "discard d cards = d\<lparr>discardPile := discardPile d @ cards\<rparr>"

definition peekTop :: "deck \<Rightarrow> nat \<Rightarrow> card list" where
  "peekTop d cnt = take cnt (drawPile d)"

definition placeOnTop :: "deck \<Rightarrow> card \<Rightarrow> deck" where
  "placeOnTop d c = d\<lparr>drawPile := c # drawPile d\<rparr>"

definition placeOnBottom :: "deck \<Rightarrow> card \<Rightarrow> deck" where
  "placeOnBottom d c = d\<lparr>drawPile := drawPile d @ [c]\<rparr>"

text \<open>
  \<open>new Map(topCards.map(card => [card.id, card]))\<close>: a later card with the same id
  replaces an earlier one.
\<close>

definition cardMap :: "card list \<Rightarrow> (string \<rightharpoonup> card)" where
  "cardMap topCards = map_of (rev (map (\<lambda>c. (card_id c, c)) topCards))"

text \<open>
  \<open>rearrangeTop\<close> mutates the deck in place and may throw; the model returns the
  exception (if any) together with the deck as it is after the call.  Both throws precede
  the \<open>splice\<close>.
\<close>

definition rearrangeTop :: "deck \<Rightarrow> string list \<Rightarrow> error option \<times> deck" where
  "rearrangeTop d newOrder =
     (let topCards = peekTop d (length newOrder) in
      if length topCards \<noteq> length newOrder
      then (Some (CountMismatch (length topCards) (length newOrder)), d)
      else case find (\<lambda>i. cardMap topCards i = None) newOrder of
             Some i \<Rightarrow> (Some (CardIdNotFound i), d)
           | None \<Rightarrow>
               (None, d\<lparr>drawPile := map (\<lambda>i. the (cardMap topCards i)) newOrder
                                      @ drop (length newOrder) (drawPile d)\<rparr>))"

definition swapWithTop :: "deck \<Rightarrow> card \<Rightarrow> error + (card \<times> deck)" where
  "swapWithTop d cardFromHand =
     (case drawPile d of
        [] \<Rightarrow> Inl DeckEmpty
      | topCard # rest \<Rightarrow> Inr (topCard, d\<lparr>drawPile := cardFromHand # rest\<rparr>))"

section \<open>GameState helpers\<close>

definition getPlayer :: "game_state \<Rightarrow> string \<Rightarrow> player option" where
  "getPlayer s pid = find (\<lambda>p. player_id p = pid) (players s)"

text \<open>
  The helpers mutate the player object that \<open>getPlayer\<close> returns: the first player of the
  list with the id.  \<open>updatePlayer\<close> is that in-place update; with no such player nothing
  changes.
\<close>

fun updatePlayer :: "string \<Rightarrow> (player \<Rightarrow> player) \<Rightarrow> player list \<Rightarrow> player list" where
  "updatePlayer pid f [] = []"
| "updatePlayer pid f (p # ps) =
     (if player_id p = pid then f p # ps else p # updatePlayer pid f ps)"

definition adjustCash :: "int \<Rightarrow> player \<Rightarrow> player" where
  "adjustCash amt p =
     (let c = cash p + amt in p\<lparr>cash := (if c < 0 then 0 else c)\<rparr>)"

definition adjustPlayerCash :: "game_state \<Rightarrow> string \<Rightarrow> int \<Rightarrow> game_state" where
  "adjustPlayerCash s pid amt = s\<lparr>players := updatePlayer pid (adjustCash amt) (players s)\<rparr>"

definition addCardToHand :: "game_state \<Rightarrow> string \<Rightarrow> card \<Rightarrow> game_state" where
  "addCardToHand s pid c =
     s\<lparr>players := updatePlayer pid (\<lambda>p. p\<lparr>hand := hand p @ [c]\<rparr>) (players s)\<rparr>"

text \<open>\<open>findIndex\<close> followed by \<open>splice(index, 1)\<close>: the first card with the id leaves the hand.\<close>

fun removeFirst :: "('a \<Rightarrow> bool) \<Rightarrow> 'a list \<Rightarrow> 'a list" where
  "removeFirst P [] = []"
| "removeFirst P (x # xs) = (if P x then xs else x # removeFirst P xs)"

definition removeCardFromHand :: "game_state \<Rightarrow> string \<Rightarrow> string \<Rightarrow> card option \<times> game_state" where
  "removeCardFromHand s pid cardId =
     (case getPlayer s pid of
        None \<Rightarrow> (None, s)
      | Some p \<Rightarrow>
          (case find (\<lambda>c. card_id c = cardId) (hand p) of
             None \<Rightarrow> (None, s)
           | Some c \<Rightarrow>
               (Some c,
                s\<lparr>players := updatePlayer pid
                     (\<lambda>p. p\<lparr>hand := removeFirst (\<lambda>c. card_id c = cardId) (hand p)\<rparr>) (players s)\<rparr>)))"

text \<open>
  \<open>removeCardsByColor\<close> takes the first \<open>min(count, k)\<close> of the \<open>k\<close> cards of the colour and
  removes each from the hand by \<open>indexOf\<close> and \<open>splice\<close> (\<open>remove1\<close>).
\<close>

definition removeCardsByColor :: "game_state \<Rightarrow> string \<Rightarrow> string \<Rightarrow> int \<Rightarrow> card list \<times> game_state" where
  "removeCardsByColor s pid col cnt =
     (case getPlayer s pid of
        None \<Rightarrow> ([], s)
      | Some p \<Rightarrow>
          (let cardsOfColor = filter (\<lambda>c. color c = col) (hand p);
               removed = take (nat (min cnt (int (length cardsOfColor)))) cardsOfColor
           in (removed,
               s\<lparr>players := updatePlayer pid
                    (\<lambda>p. p\<lparr>hand := fold remove1 removed (hand p)\<rparr>) (players s)\<rparr>)))"

definition calculateCardValue :: "card list \<Rightarrow> (string \<rightharpoonup> int) \<Rightarrow> int" where
  "calculateCardValue cards prices =
     fold (\<lambda>c total. case prices (color c) of None \<Rightarrow> total | Some p \<Rightarrow> total + p) cards 0"


section \<open>JavaScript sets and array reads\<close>

definition set_size :: "string list \<Rightarrow> nat" where
  "set_size xs = length (remdups xs)"

definition set_first :: "string list \<Rightarrow> string option" where
  "set_first xs = (case xs of [] \<Rightarrow> None | x # _ \<Rightarrow> Some x)"

definition nth_opt :: "'a list \<Rightarrow> nat \<Rightarrow> 'a option" where
  "nth_opt xs i = (if i < length xs then Some (xs ! i) else None)"

section \<open>ValidationSystem: bids and passes\<close>

datatype validation = Valid | Invalid string

text \<open>
  The reason strings are the fixed part of the messages.  A validator that reads a field
  of an absent phase state throws a \<open>TypeError\<close>; the action is not executed then either.
\<close>

text \<open>
  \<open>validateBid\<close> compares the amount as it comes: \<open>amount <= currentBid\<close> and
  \<open>player.cash < amount\<close> are both false when the amount is \<open>NaN\<close> or missing, and neither
  asks for a whole number.
\<close>

definition validateBid :: "game_state \<Rightarrow> string \<Rightarrow> real option \<Rightarrow> validation" where
  "validateBid s pid amt =
     (if currentPhase s \<noteq> Some AUCTION then Invalid ''Not in auction phase''
      else case getPlayer s pid of
        None \<Rightarrow> Invalid ''Player not found''
      | Some p \<Rightarrow>
          (case auction s of
             None \<Rightarrow> Invalid ''TypeError''
           | Some a \<Rightarrow>
               if pid \<notin> set (activeBidders a) then Invalid ''You have already passed''
               else if num_le amt (currentBid a) then Invalid ''Bid must be higher than current bid''
               else if num_lt (Some (of_int (cash p))) amt then Invalid ''Insufficient funds''
               else Valid))"

definition validatePass :: "game_state \<Rightarrow> string \<Rightarrow> validation" where
  "validatePass s pid =
     (if currentPhase s \<noteq> Some AUCTION then Invalid ''Not in auction phase''
      else case auction s of
        None \<Rightarrow> Invalid ''TypeError''
      | Some a \<Rightarrow>
          if pid \<notin> set (activeBidders a) then Invalid ''You have already passed''
          else Valid)"

section \<open>AuctionManager\<close>

text \<open>
  The manager's methods run after validation, which has already read the auction state;
  with no auction state they would throw, and the model leaves the state as it is.
\<close>

definition initializeAuction :: "game_state \<Rightarrow> game_state" where
  "initializeAuction s =
     (let cardsPerAuction = length (players s) + 2;
          (cards, d) = draw (resourceDeck s) cardsPerAuction
      in s\<lparr>resourceDeck := d,
            auction := Some \<lparr>cardsToAuction = cards,
                             currentCardIndex = 0,
                             currentCard = nth_opt cards 0,
                             currentBid = Some 0,
                             currentHighBidder = None,
                             activeBidders = map player_id (players s),
                             currentPlayerIndex = dealerIndex s,
                             lastRaiserIndex = None\<rparr>\<rparr>)"

text \<open>
  The rotation loop of \<open>advanceToNextActiveBidder\<close>: at most \<open>players.length\<close> attempts, the
  last argument counting the attempts that remain.
\<close>

fun nextActiveBidder :: "string list \<Rightarrow> string list \<Rightarrow> nat \<Rightarrow> nat \<Rightarrow> nat \<Rightarrow> nat option" where
  "nextActiveBidder order active n nextIndex 0 = None"
| "nextActiveBidder order active n nextIndex (Suc k) =
     (if nextIndex < length order \<and> order ! nextIndex \<in> set active then Some nextIndex
      else nextActiveBidder order active n ((nextIndex + 1) mod n) k)"

definition advanceToNextActiveBidder :: "game_state \<Rightarrow> game_state" where
  "advanceToNextActiveBidder s =
     (case auction s of
        None \<Rightarrow> s
      | Some a \<Rightarrow>
          (let n = length (players s) in
           case nextActiveBidder (turnOrder s) (activeBidders a) n
                  ((currentPlayerIndex a + 1) mod n) n of
             Some i \<Rightarrow> s\<lparr>auction := Some (a\<lparr>currentPlayerIndex := i\<rparr>)\<rparr>
           | None \<Rightarrow> s))"

definition placeBid :: "game_state \<Rightarrow> string \<Rightarrow> real option \<Rightarrow> game_state" where
  "placeBid s pid amt =
     (case auction s of
        None \<Rightarrow> s
      | Some a \<Rightarrow>
          advanceToNextActiveBidder
            (s\<lparr>auction := Some (a\<lparr>currentBid := amt,
                                    currentHighBidder := Some pid,
                                    lastRaiserIndex := Some (currentPlayerIndex a)\<rparr>)\<rparr>))"

definition moveToNextCard :: "game_state \<Rightarrow> game_state" where
  "moveToNextCard s =
     (case auction s of
        None \<Rightarrow> s
      | Some a \<Rightarrow>
          (let idx = currentCardIndex a + 1;
               dealer = (dealerIndex s + 1) mod length (players s)
           in if idx < length (cardsToAuction a)
              then s\<lparr>dealerIndex := dealer,
                     auction := Some (a\<lparr>currentCardIndex := idx,
                                        currentCard := Some (cardsToAuction a ! idx),
                                        currentBid := Some 0,
                                        currentHighBidder := None,
                                        activeBidders := map player_id (players s),
                                        currentPlayerIndex := dealer,
                                        lastRaiserIndex := None\<rparr>)\<rparr>
              else s\<lparr>dealerIndex := dealer,
                     auction := Some (a\<lparr>currentCardIndex := idx\<rparr>)\<rparr>))"

text \<open>
  \<open>winnerId = currentHighBidder || Array.from(activeBidders)[0]\<close>; an empty string is falsy.
  The cash-changed event reads \<open>getPlayer(state, winnerId).cash\<close>: with no such player the
  method throws there, after the two no-op transfers and before \<open>moveToNextCard\<close>.  The
  winner's cash is adjusted by the negated current bid: a whole number goes through
  \<open>adjustPlayerCash\<close>, any other amount is logged.  The current card is pushed into the
  winner's hand as it is: a card is appended, \<open>null\<close> is logged.
\<close>

definition auctionWinner :: "auction_state \<Rightarrow> string option" where
  "auctionWinner a =
     (case currentHighBidder a of
        Some h \<Rightarrow> if h \<noteq> [] then Some h else set_first (activeBidders a)
      | None \<Rightarrow> set_first (activeBidders a))"

definition completeCurrentCardAuction :: "game_state \<Rightarrow> game_state" where
  "completeCurrentCardAuction s =
     (case auction s of
        None \<Rightarrow> s
      | Some a \<Rightarrow>
          (case auctionWinner a of
             None \<Rightarrow> s
           | Some winnerId \<Rightarrow>
               (case getPlayer s winnerId of
                  None \<Rightarrow> s
                | Some w \<Rightarrow>
                    (let winningBid = currentBid a;
                         s1 = (case wholeNumber winningBid of
                                 Some n \<Rightarrow> adjustPlayerCash s winnerId (- n)
                               | None \<Rightarrow>
                                   s\<lparr>anomalies := anomalies s @
                                        [CashAdjustedBy winnerId (map_option uminus winningBid)]\<rparr>);
                         s2 = (case currentCard a of
                                 None \<Rightarrow> s1\<lparr>anomalies := anomalies s1 @ [NullInHand winnerId]\<rparr>
                               | Some c \<Rightarrow> addCardToHand s1 winnerId c)
                     in moveToNextCard s2))))"

definition pass :: "game_state \<Rightarrow> string \<Rightarrow> game_state" where
  "pass s pid =
     (case auction s of
        None \<Rightarrow> s
      | Some a \<Rightarrow>
          (let a1 = a\<lparr>activeBidders := removeAll pid (activeBidders a)\<rparr>;
               s1 = s\<lparr>auction := Some a1\<rparr>
           in if set_size (activeBidders a1) = 1 then completeCurrentCardAuction s1
              else if set_size (activeBidders a1) = 0
              then moveToNextCard
                     (case currentCard a1 of
                        None \<Rightarrow> s1\<lparr>anomalies := anomalies s1 @ [NullOnDiscardPile]\<rparr>
                      | Some c \<Rightarrow> s1\<lparr>resourceDeck := discard (resourceDeck s1) [c]\<rparr>)
              else (let s2 = advanceToNextActiveBidder s1 in
                    case auction s2 of
                      None \<Rightarrow> s2
                    | Some a2 \<Rightarrow>
                        if lastRaiserIndex a2 \<noteq> None
                           \<and> Some (currentPlayerIndex a2) = lastRaiserIndex a2
                           \<and> currentHighBidder a2 \<noteq> None
                        then completeCurrentCardAuction s2
                        else s2)))"

definition isAuctionComplete :: "game_state \<Rightarrow> bool" where
  "isAuctionComplete s =
     (case auction s of
        None \<Rightarrow> False
      | Some a \<Rightarrow> currentCardIndex a \<ge> length (cardsToAuction a))"

section \<open>ValidationSystem: trades and sells\<close>

text \<open>
  A trade proposal carries the offered card ids and cash and the requested colour counts
  and cash.  An absent list and an empty one, an absent amount and zero are treated alike
  by the validator and by the manager (\<open>|| []\<close>, \<open>|| 0\<close>), so the model uses the list and
  the number.
\<close>

definition ownsAll :: "player \<Rightarrow> string list \<Rightarrow> bool" where
  "ownsAll p cardIds = list_all (\<lambda>cardId. list_ex (\<lambda>c. card_id c = cardId) (hand p)) cardIds"

definition validateTradeProposal ::
  "game_state \<Rightarrow> string \<Rightarrow> string list \<Rightarrow> int \<Rightarrow> card_request list \<Rightarrow> int \<Rightarrow> validation" where
  "validateTradeProposal s pid offCards offCash reqCards reqCash =
     (if currentPhase s \<noteq> Some TRADING then Invalid ''Not in trading phase''
      else case getPlayer s pid of
        None \<Rightarrow> Invalid ''Player not found''
      | Some p \<Rightarrow>
          if offCards = [] \<and> offCash = 0 then Invalid ''Must offer something (cards or cash)''
          else if reqCards = [] \<and> reqCash = 0 then Invalid ''Must request something (cards or cash)''
          else if \<not> ownsAll p offCards then Invalid ''You do not own card''
          else if offCash \<noteq> 0 \<and> cash p < offCash then Invalid ''Insufficient cash to offer''
          else Valid)"

definition hasRequested :: "player \<Rightarrow> card_request \<Rightarrow> bool" where
  "hasRequested p r \<longleftrightarrow>
     \<not> int (length (filter (\<lambda>c. color c = req_color r) (hand p))) < req_count r"

definition validateTradeAcceptance :: "game_state \<Rightarrow> string \<Rightarrow> string \<Rightarrow> validation" where
  "validateTradeAcceptance s pid oid =
     (if currentPhase s \<noteq> Some TRADING then Invalid ''Not in trading phase''
      else case getPlayer s pid of
        None \<Rightarrow> Invalid ''Player not found''
      | Some p \<Rightarrow>
          (case trading s of
             None \<Rightarrow> Invalid ''TypeError''
           | Some t \<Rightarrow>
               (case find (\<lambda>x. offerId x = oid) (activeOffers t) of
                  None \<Rightarrow> Invalid ''Offer not found''
                | Some ofr \<Rightarrow>
                    if status ofr \<noteq> ACTIVE then Invalid ''Offer is no longer active''
                    else if offeringPlayer ofr = pid then Invalid ''Cannot accept your own offer''
                    else if requesting_cash ofr \<noteq> 0 \<and> cash p < requesting_cash ofr
                    then Invalid ''Insufficient cash''
                    else if \<not> list_all (hasRequested p) (requesting_cards ofr)
                    then Invalid ''Need more cards''
                    else Valid)))"

definition validateTradeCancellation :: "game_state \<Rightarrow> string \<Rightarrow> string \<Rightarrow> validation" where
  "validateTradeCancellation s pid oid =
     (if currentPhase s \<noteq> Some TRADING then Invalid ''Not in trading phase''
      else case trading s of
        None \<Rightarrow> Invalid ''TypeError''
      | Some t \<Rightarrow>
          (case find (\<lambda>x. offerId x = oid) (activeOffers t) of
             None \<Rightarrow> Invalid ''Offer not found''
           | Some ofr \<Rightarrow>
               if offeringPlayer ofr \<noteq> pid then Invalid ''Can only cancel your own offers''
               else if status ofr \<noteq> ACTIVE then Invalid ''Offer is no longer active''
               else Valid))"

definition validateSellSelection :: "game_state \<Rightarrow> string \<Rightarrow> string list \<Rightarrow> validation" where
  "validateSellSelection s pid cardIds =
     (if currentPhase s \<noteq> Some SELL then Invalid ''Not in sell phase''
      else case getPlayer s pid of
        None \<Rightarrow> Invalid ''Player not found''
      | Some p \<Rightarrow>
          if \<not> ownsAll p cardIds then Invalid ''You do not own card''
          else Valid)"

definition validateSellCommit :: "game_state \<Rightarrow> string \<Rightarrow> validation" where
  "validateSellCommit s pid =
     (if currentPhase s \<noteq> Some SELL then Invalid ''Not in sell phase''
      else case sell s of
        None \<Rightarrow> Invalid ''TypeError''
      | Some sl \<Rightarrow>
          (case map_of (playerSelections sl) pid of
             None \<Rightarrow> Invalid ''No sell selection found''
           | Some sel \<Rightarrow>
               if committed sel then Invalid ''Already committed''
               else Valid))"

section \<open>TradingManager\<close>

definition initializeTrading :: "game_state \<Rightarrow> game_state" where
  "initializeTrading s =
     s\<lparr>trading := Some \<lparr>activeOffers = [], timeRemaining = tradingDuration s\<rparr>\<rparr>"

text \<open>The offer id comes from \<open>uuid()\<close>; the model takes it as an argument.\<close>

definition proposeTrade ::
  "game_state \<Rightarrow> string \<Rightarrow> string \<Rightarrow> string list \<Rightarrow> int \<Rightarrow> card_request list \<Rightarrow> int \<Rightarrow> game_state" where
  "proposeTrade s newId pid offCards offCash reqCards reqCash =
     (case trading s of
        None \<Rightarrow> s
      | Some t \<Rightarrow>
          s\<lparr>trading := Some (t\<lparr>activeOffers := activeOffers t @
               [\<lparr>offerId = newId, offeringPlayer = pid,
                 offering_cards = offCards, offering_cash = offCash,
                 requesting_cards = reqCards, requesting_cash = reqCash,
                 status = ACTIVE\<rparr>]\<rparr>)\<rparr>)"

text \<open>The offer object that \<open>find\<close> returns is mutated in place: the first one with the id.\<close>

fun updateOffer :: "string \<Rightarrow> (offer \<Rightarrow> offer) \<Rightarrow> offer list \<Rightarrow> offer list" where
  "updateOffer oid f [] = []"
| "updateOffer oid f (x # xs) =
     (if offerId x = oid then f x # xs else x # updateOffer oid f xs)"

definition transferOfferedCard :: "string \<Rightarrow> string \<Rightarrow> string \<Rightarrow> game_state \<Rightarrow> game_state" where
  "transferOfferedCard fromPlayer toPlayer cardId s =
     (case removeCardFromHand s fromPlayer cardId of
        (None, s') \<Rightarrow> s'
      | (Some c, s') \<Rightarrow> addCardToHand s' toPlayer c)"

definition transferRequestedCards :: "string \<Rightarrow> string \<Rightarrow> card_request \<Rightarrow> game_state \<Rightarrow> game_state" where
  "transferRequestedCards fromPlayer toPlayer r s =
     (case removeCardsByColor s fromPlayer (req_color r) (req_count r) of
        (cards, s') \<Rightarrow> fold (\<lambda>c st. addCardToHand st toPlayer c) cards s')"

text \<open>
  \<open>executeTrade\<close>: the offered cards, the requested cards, the offered cash, the requested
  cash, in this order.  Each cash leg ends with two events that read the cash of both
  players; with one of them missing the method throws there, before the next leg.
\<close>

definition executeTrade :: "game_state \<Rightarrow> offer \<Rightarrow> string \<Rightarrow> game_state" where
  "executeTrade s ofr acceptingPlayer =
     (let proposer = offeringPlayer ofr;
          s1 = fold (transferOfferedCard proposer acceptingPlayer) (offering_cards ofr) s;
          s2 = fold (transferRequestedCards acceptingPlayer proposer) (requesting_cards ofr) s1;
          s3 = (if offering_cash ofr > 0
                then adjustPlayerCash (adjustPlayerCash s2 proposer (- offering_cash ofr))
                       acceptingPlayer (offering_cash ofr)
                else s2)
      in if offering_cash ofr > 0
            \<and> (getPlayer s3 proposer = None \<or> getPlayer s3 acceptingPlayer = None)
         then s3
         else if requesting_cash ofr > 0
         then adjustPlayerCash (adjustPlayerCash s3 acceptingPlayer (- requesting_cash ofr))
                proposer (requesting_cash ofr)
         else s3)"

definition stillFulfillable :: "player \<Rightarrow> offer \<Rightarrow> bool" where
  "stillFulfillable p ofr \<longleftrightarrow> ownsAll p (offering_cards ofr) \<and> cash p \<ge> offering_cash ofr"

definition autoCancelInvalidOffers :: "game_state \<Rightarrow> string \<Rightarrow> game_state" where
  "autoCancelInvalidOffers s pid =
     (case trading s of
        None \<Rightarrow> s
      | Some t \<Rightarrow>
          (case getPlayer s pid of
             None \<Rightarrow> s
           | Some p \<Rightarrow>
               s\<lparr>trading := Some (t\<lparr>activeOffers :=
                    map (\<lambda>ofr. if status ofr = ACTIVE \<and> offeringPlayer ofr = pid
                                    \<and> \<not> stillFulfillable p ofr
                                 then ofr\<lparr>status := CANCELLED\<rparr> else ofr)
                        (activeOffers t)\<rparr>)\<rparr>))"

definition acceptTrade :: "game_state \<Rightarrow> string \<Rightarrow> string \<Rightarrow> game_state" where
  "acceptTrade s pid oid =
     (case trading s of
        None \<Rightarrow> s
      | Some t \<Rightarrow>
          (case find (\<lambda>x. offerId x = oid) (activeOffers t) of
             None \<Rightarrow> s
           | Some ofr \<Rightarrow>
               if status ofr \<noteq> ACTIVE then s
               else
                 (let s1 = s\<lparr>trading := Some (t\<lparr>activeOffers :=
                             updateOffer oid (\<lambda>x. x\<lparr>status := ACCEPTED\<rparr>) (activeOffers t)\<rparr>)\<rparr>;
                      s2 = executeTrade s1 ofr pid;
                      s3 = autoCancelInvalidOffers s2 (offeringPlayer ofr)
                  in autoCancelInvalidOffers s3 pid)))"

definition cancelTrade :: "game_state \<Rightarrow> string \<Rightarrow> game_state" where
  "cancelTrade s oid =
     (case trading s of
        None \<Rightarrow> s
      | Some t \<Rightarrow>
          (case find (\<lambda>x. offerId x = oid) (activeOffers t) of
             None \<Rightarrow> s
           | Some ofr \<Rightarrow>
               if status ofr = ACTIVE
               then s\<lparr>trading := Some (t\<lparr>activeOffers :=
                         updateOffer oid (\<lambda>x. x\<lparr>status := CANCELLED\<rparr>) (activeOffers t)\<rparr>)\<rparr>
               else s))"

section \<open>SellManager\<close>

text \<open>
  \<open>playerSelections\<close> is an object keyed by player id.  The model keeps its entries in
  insertion order (assigning to a key that exists keeps its place); \<open>Object.entries\<close> lists
  the keys that are array indices first (the decimal numerals below \<open>2^32 - 1\<close> without a
  leading zero), in ascending numeric order, and the other keys after them in insertion
  order.
\<close>

definition decimalValue :: "string \<Rightarrow> nat" where
  "decimalValue k = foldl (\<lambda>n c. 10 * n + (of_char c - 48)) 0 k"

definition arrayIndex :: "string \<Rightarrow> nat option" where
  "arrayIndex k =
     (if k \<noteq> [] \<and> list_all (\<lambda>c. c \<in> set ''0123456789'') k
         \<and> (k = ''0'' \<or> hd k \<noteq> CHR ''0'') \<and> decimalValue k < 4294967295
      then Some (decimalValue k) else None)"

definition objectEntries :: "(string \<times> 'v) list \<Rightarrow> (string \<times> 'v) list" where
  "objectEntries kvs =
     sort_key (\<lambda>kv. the (arrayIndex (fst kv))) (filter (\<lambda>kv. arrayIndex (fst kv) \<noteq> None) kvs)
     @ filter (\<lambda>kv. arrayIndex (fst kv) = None) kvs"

fun assign :: "string \<Rightarrow> 'v \<Rightarrow> (string \<times> 'v) list \<Rightarrow> (string \<times> 'v) list" where
  "assign k v [] = [(k, v)]"
| "assign k v ((k', v') # kvs) = (if k' = k then (k, v) # kvs else (k', v') # assign k v kvs)"

definition initializeSell :: "game_state \<Rightarrow> game_state" where
  "initializeSell s =
     s\<lparr>sell := Some
        \<lparr>playerSelections =
           fold (\<lambda>p sels. assign (player_id p) \<lparr>cardsToSell = [], committed = False\<rparr> sels)
             (players s) [],
         allCommitted = False\<rparr>\<rparr>"

definition selectCardsToSell :: "game_state \<Rightarrow> string \<Rightarrow> string list \<Rightarrow> game_state" where
  "selectCardsToSell s pid cardIds =
     (case sell s of
        None \<Rightarrow> s
      | Some sl \<Rightarrow>
          (case map_of (playerSelections sl) pid of
             None \<Rightarrow> s
           | Some sel \<Rightarrow>
               s\<lparr>sell := Some (sl\<lparr>playerSelections :=
                    assign pid (sel\<lparr>cardsToSell := cardIds\<rparr>) (playerSelections sl)\<rparr>)\<rparr>))"

text \<open>
  Selling one card: the card leaves the hand; when it has a (non-empty) colour its sale
  price is added to the earnings and it is discarded.  The earnings are \<open>None\<close> once a
  card of an unpriced colour was sold (\<open>NaN\<close> in JavaScript, for which \<open>earnings > 0\<close> is
  false).
\<close>

definition sellCard :: "string \<Rightarrow> int \<Rightarrow> string \<Rightarrow> int option \<times> game_state \<Rightarrow> int option \<times> game_state" where
  "sellCard pid bonusNow cardId acc =
     (case acc of (earnings, s) \<Rightarrow>
        (case removeCardFromHand s pid cardId of
           (None, s') \<Rightarrow> (earnings, s')
         | (Some c, s') \<Rightarrow>
             if color c = [] then (earnings, s')
             else
               (let salePrice =
                      (case stockPrices s' (color c) of
                         None \<Rightarrow> None
                       | Some price \<Rightarrow> Some (if bonusNow > 0 then price + bonusNow else price));
                    earnings' = (case (earnings, salePrice) of
                                   (Some e, Some sp) \<Rightarrow> Some (e + sp)
                                 | _ \<Rightarrow> None)
                in (earnings', s'\<lparr>resourceDeck := discard (resourceDeck s') [c]\<rparr>))))"

definition sellFor :: "string \<times> selection \<Rightarrow> game_state \<Rightarrow> game_state" where
  "sellFor entry s =
     (case entry of (pid, sel) \<Rightarrow>
        (case getPlayer s pid of
           None \<Rightarrow> s
         | Some p \<Rightarrow>
             (case fold (sellCard pid (sellBonus p)) (cardsToSell sel) (Some 0, s) of
                (earnings, s1) \<Rightarrow>
                  (let s2 = (case earnings of
                               Some e \<Rightarrow> if e > 0 then adjustPlayerCash s1 pid e else s1
                             | None \<Rightarrow> s1)
                   in if sellBonus p > 0
                      then s2\<lparr>players := updatePlayer pid (\<lambda>q. q\<lparr>sellBonus := 0\<rparr>) (players s2)\<rparr>
                      else s2))))"

definition executeSells :: "game_state \<Rightarrow> game_state" where
  "executeSells s =
     (case sell s of
        None \<Rightarrow> s
      | Some sl \<Rightarrow> fold sellFor (objectEntries (playerSelections sl)) s)"

definition commitSell :: "game_state \<Rightarrow> string \<Rightarrow> game_state" where
  "commitSell s pid =
     (case sell s of
        None \<Rightarrow> s
      | Some sl \<Rightarrow>
          (case map_of (playerSelections sl) pid of
             None \<Rightarrow> s
           | Some sel \<Rightarrow>
               (let sels = assign pid (sel\<lparr>committed := True\<rparr>) (playerSelections sl);
                    sl1 = sl\<lparr>playerSelections := sels\<rparr>
                in if list_all (\<lambda>kv. committed (snd kv)) sels
                   then executeSells (s\<lparr>sell := Some (sl1\<lparr>allCommitted := True\<rparr>)\<rparr>)
                   else s\<lparr>sell := Some sl1\<rparr>)))"

definition areAllCommitted :: "game_state \<Rightarrow> bool" where
  "areAllCommitted s = (case sell s of None \<Rightarrow> False | Some sl \<Rightarrow> allCommitted sl)"

section \<open>GoalParser\<close>

text \<open>
  \<open>colorCounts\<close> has an entry for each of the four colours only; a requirement on any other
  colour compares \<open>undefined < n\<close>, which is false, and does not fail the goal.
\<close>

definition colorCounts :: "card list \<Rightarrow> (string \<rightharpoonup> nat)" where
  "colorCounts playerHand col =
     (if col \<in> set COLORS then Some (length (filter (\<lambda>c. color c = col) playerHand)) else None)"

definition requirementMet :: "card list \<Rightarrow> string \<times> int \<Rightarrow> bool" where
  "requirementMet playerHand req =
     (case colorCounts playerHand (fst req) of
        None \<Rightarrow> True
      | Some k \<Rightarrow> \<not> int k < snd req)"

definition checkGoal :: "goal_card \<Rightarrow> card list \<Rightarrow> bool" where
  "checkGoal goalCard playerHand =
     (case goalParsed goalCard of
        None \<Rightarrow> False
      | Some parsed \<Rightarrow>
          if goalType parsed = NONE_OF
          then \<not> list_ex (\<lambda>c. color c = avoidColor parsed) playerHand
          else list_all (requirementMet playerHand) (requirements parsed))"

section \<open>RewardSystem\<close>

text \<open>
  The choices a player supplies with an execute-reward action.  A field that the action
  leaves out reads as \<open>undefined\<close>, which names no player, colour or card; the model has
  a value that names none in its place.  The two rewards that call \<open>Math.random\<close> take the
  number drawn as the argument \<open>rnd\<close>, reduced modulo the number of alternatives.
\<close>

record choices =
  targetPlayerId :: string
  choiceColor :: string
  direction :: int
  placement :: string
  choiceCardId :: string
  newOrder :: "string list"
  cardIdToGive :: string

text \<open>
  A reward is executed (\<open>true\<close>), waits for input (\<open>false\<close>), or throws a \<open>TypeError\<close> on an
  absent object; \<open>Threw\<close> carries the state as the throw leaves it.
\<close>

datatype reward_outcome = Executed game_state | NeedsInput | Threw game_state

definition orOne :: "int option \<Rightarrow> int" where
  "orOne v = (case v of None \<Rightarrow> 1 | Some n \<Rightarrow> if n = 0 then 1 else n)"

definition executeGainCash :: "game_state \<Rightarrow> string \<Rightarrow> int \<Rightarrow> reward_outcome" where
  "executeGainCash s pid amt =
     (let s1 = adjustPlayerCash s pid amt in
      if getPlayer s1 pid = None then Threw s1 else Executed s1)"

definition executeStealCash :: "game_state \<Rightarrow> string \<Rightarrow> string \<Rightarrow> int \<Rightarrow> reward_outcome" where
  "executeStealCash s pid target amt =
     (case getPlayer s target of
        None \<Rightarrow> Threw s
      | Some t \<Rightarrow>
          (let actualAmount = min amt (cash t);
               s1 = adjustPlayerCash s target (- actualAmount);
               s2 = adjustPlayerCash s1 pid actualAmount
           in if getPlayer s2 pid = None then Threw s2 else Executed s2))"

definition executeAdjustStock :: "price_config \<Rightarrow> game_state \<Rightarrow> string \<Rightarrow> int \<Rightarrow> reward_outcome" where
  "executeAdjustStock cfg s col dir =
     (case applyChanges cfg (stockPrices s, nonNumberPrices s) [(col, dir)] of
        (newPrices, others) \<Rightarrow> Executed (s\<lparr>stockPrices := newPrices, nonNumberPrices := others\<rparr>))"

definition executeLookAtHand :: "game_state \<Rightarrow> string \<Rightarrow> string \<Rightarrow> reward_outcome" where
  "executeLookAtHand s pid target =
     (case getPlayer s target of None \<Rightarrow> Threw s | Some t \<Rightarrow> Executed s)"

definition executePeekAndPlace :: "game_state \<Rightarrow> string \<Rightarrow> string \<Rightarrow> reward_outcome" where
  "executePeekAndPlace s pid place =
     (case peekTop (resourceDeck s) 1 of
        [] \<Rightarrow> Executed s
      | topCard # _ \<Rightarrow>
          if place = ''bottom''
          then (case draw (resourceDeck s) 1 of
                  (c # _, d) \<Rightarrow> Executed (s\<lparr>resourceDeck := placeOnBottom d c\<rparr>)
                | ([], d) \<Rightarrow> Threw (s\<lparr>resourceDeck := d\<rparr>))
          else Executed s)"

definition executeSwapWithDeck :: "game_state \<Rightarrow> string \<Rightarrow> string \<Rightarrow> reward_outcome" where
  "executeSwapWithDeck s pid cardId =
     (case removeCardFromHand s pid cardId of
        (None, s1) \<Rightarrow> Executed s1
      | (Some cardFromHand, s1) \<Rightarrow>
          (case swapWithTop (resourceDeck s1) cardFromHand of
             Inr (topCard, d) \<Rightarrow> Executed (addCardToHand (s1\<lparr>resourceDeck := d\<rparr>) pid topCard)
           | Inl e \<Rightarrow> Executed (addCardToHand s1 pid cardFromHand)))"

definition executeRearrangeTop5 :: "game_state \<Rightarrow> string list \<Rightarrow> reward_outcome" where
  "executeRearrangeTop5 s order =
     Executed (s\<lparr>resourceDeck := snd (rearrangeTop (resourceDeck s) order)\<rparr>)"

definition executeTakeAndGiveCard :: "game_state \<Rightarrow> string \<Rightarrow> choices \<Rightarrow> nat \<Rightarrow> reward_outcome" where
  "executeTakeAndGiveCard s pid ch rnd =
     (case getPlayer s (targetPlayerId ch) of
        None \<Rightarrow> Executed s
      | Some t \<Rightarrow>
          if hand t = [] then Executed s
          else
            (let randomIndex = rnd mod length (hand t);
                 takenCard = hand t ! randomIndex;
                 s1 = snd (removeCardFromHand s (targetPlayerId ch) (card_id takenCard));
                 s2 = addCardToHand s1 pid takenCard
             in case removeCardFromHand s2 pid (cardIdToGive ch) of
                  (None, s3) \<Rightarrow> Executed s3
                | (Some cardToGive, s3) \<Rightarrow>
                    Executed (addCardToHand s3 (targetPlayerId ch) cardToGive)))"

text \<open>
  Taking the first card of a colour out of the draw pile (\<open>filter\<close>, \<open>indexOf\<close>, \<open>splice\<close>)
  and into a hand.
\<close>

definition takeCardOfColor :: "game_state \<Rightarrow> string \<Rightarrow> string \<Rightarrow> game_state option" where
  "takeCardOfColor s pid col =
     (case filter (\<lambda>c. color c = col) (drawPile (resourceDeck s)) of
        [] \<Rightarrow> None
      | c # _ \<Rightarrow>
          Some (addCardToHand
                  (s\<lparr>resourceDeck := (resourceDeck s)\<lparr>drawPile := remove1 c (drawPile (resourceDeck s))\<rparr>\<rparr>)
                  pid c))"

text \<open>
  With no price for the colour the discounted price is \<open>NaN\<close>: nothing happens when the
  draw pile has no card of the colour; when it has one, the cash becomes \<open>NaN\<close>, which the
  integer model does not represent and records as a failed call.
\<close>

definition executeBuyWithDiscount :: "game_state \<Rightarrow> string \<Rightarrow> string \<Rightarrow> int \<Rightarrow> reward_outcome" where
  "executeBuyWithDiscount s pid col disc =
     (case getPlayer s pid of
        None \<Rightarrow> Threw s
      | Some p \<Rightarrow>
          (case stockPrices s col of
             None \<Rightarrow>
               (if filter (\<lambda>c. color c = col) (drawPile (resourceDeck s)) = []
                then Executed s else Threw s)
           | Some price \<Rightarrow>
               (let discountedPrice = max 0 (price - disc) in
                if cash p < discountedPrice then Executed s
                else case takeCardOfColor s pid col of
                       None \<Rightarrow> Executed s
                     | Some s1 \<Rightarrow> Executed (adjustPlayerCash s1 pid (- discountedPrice)))))"

definition executeSellBonus :: "game_state \<Rightarrow> string \<Rightarrow> int \<Rightarrow> reward_outcome" where
  "executeSellBonus s pid b =
     (case getPlayer s pid of
        None \<Rightarrow> Threw s
      | Some p \<Rightarrow> Executed (s\<lparr>players := updatePlayer pid (\<lambda>q. q\<lparr>sellBonus := b\<rparr>) (players s)\<rparr>))"

text \<open>
  The price object is created with the four colours as its keys and no operation adds a
  numeric entry, so the keys of the numeric entries are read off \<open>COLORS\<close>.  With an entry
  that is not a number \<open>Math.min\<close> yields \<open>NaN\<close>, which no price equals.
\<close>

definition getLowestPriceColors :: "price_object \<Rightarrow> string list" where
  "getLowestPriceColors obj =
     (case obj of (prices, others) \<Rightarrow>
        if others \<noteq> [] then []
        else (case List.map_filter prices COLORS of
                [] \<Rightarrow> []
              | v # vs \<Rightarrow> filter (\<lambda>c. prices c = Some (fold min vs v)) COLORS))"

definition executeGainLowestStock :: "game_state \<Rightarrow> string \<Rightarrow> nat \<Rightarrow> reward_outcome" where
  "executeGainLowestStock s pid rnd =
     (let lowestColors = getLowestPriceColors (stockPrices s, nonNumberPrices s) in
      case nth_opt lowestColors (rnd mod length lowestColors) of
        None \<Rightarrow> Executed s
      | Some col \<Rightarrow>
          (case takeCardOfColor s pid col of
             None \<Rightarrow> Executed s
           | Some s1 \<Rightarrow> Executed s1))"

definition RewardSystem_executeReward ::
  "price_config \<Rightarrow> game_state \<Rightarrow> string \<Rightarrow> reward_parsed \<Rightarrow> choices option \<Rightarrow> nat \<Rightarrow> reward_outcome" where
  "RewardSystem_executeReward cfg s pid rp chs rnd =
     (if (requiresTarget rp \<or> requiresChoice rp) \<and> chs = None then NeedsInput
      else case rewardType rp of
        GAIN_CASH \<Rightarrow> executeGainCash s pid (orOne (amount rp))
      | SELL_BONUS \<Rightarrow> executeSellBonus s pid (orOne (bonus rp))
      | GAIN_LOWEST_STOCK \<Rightarrow> executeGainLowestStock s pid rnd
      | OTHER_REWARD \<Rightarrow> Executed s
      | rt \<Rightarrow>
          (case chs of
             None \<Rightarrow> Threw s
           | Some ch \<Rightarrow>
               (case rt of
                  STEAL_CASH \<Rightarrow> executeStealCash s pid (targetPlayerId ch) (orOne (amount rp))
                | ADJUST_STOCK \<Rightarrow> executeAdjustStock cfg s (choiceColor ch) (direction ch)
                | LOOK_AT_HAND \<Rightarrow> executeLookAtHand s pid (targetPlayerId ch)
                | PEEK_AND_PLACE \<Rightarrow> executePeekAndPlace s pid (placement ch)
                | SWAP_WITH_DECK \<Rightarrow> executeSwapWithDeck s pid (choiceCardId ch)
                | REARRANGE_TOP_5 \<Rightarrow> executeRearrangeTop5 s (newOrder ch)
                | TAKE_AND_GIVE_CARD \<Rightarrow> executeTakeAndGiveCard s pid ch rnd
                | BUY_WITH_DISCOUNT \<Rightarrow> executeBuyWithDiscount s pid (choiceColor ch) (orOne (discount rp))
                | _ \<Rightarrow> Executed s)))"

section \<open>ValidationSystem: goal reveal and reward execution\<close>

definition validateGoalReveal :: "game_state \<Rightarrow> string \<Rightarrow> string \<Rightarrow> validation" where
  "validateGoalReveal s pid goalCardId =
     (if currentPhase s \<noteq> Some GOAL_RESOLUTION then Invalid ''Not in goal resolution phase''
      else case getPlayer s pid of
        None \<Rightarrow> Invalid ''Player not found''
      | Some p \<Rightarrow>
          (case goalResolution s of
             None \<Rightarrow> Invalid ''TypeError''
           | Some g \<Rightarrow>
               if nth_opt (turnOrder s) (gr_currentPlayerIndex g) \<noteq> Some pid
               then Invalid ''Not your turn to reveal a goal''
               else case find (\<lambda>gc. goal_id gc = goalCardId) (goalCards p) of
                      None \<Rightarrow> Invalid ''Goal card not found in your hand''
                    | Some gc \<Rightarrow>
                        if revealed gc then Invalid ''Goal card already revealed''
                        else Valid))"

definition validateRewardExecution :: "game_state \<Rightarrow> string \<Rightarrow> validation" where
  "validateRewardExecution s pid =
     (if currentPhase s \<noteq> Some GOAL_RESOLUTION then Invalid ''Not in goal resolution phase''
      else case goalResolution s of
        None \<Rightarrow> Invalid ''TypeError''
      | Some g \<Rightarrow>
          (case pendingRewardExecution g of
             None \<Rightarrow> Invalid ''No pending reward to execute''
           | Some pend \<Rightarrow>
               if pr_playerId pend \<noteq> pid then Invalid ''Reward is not for you''
               else Valid))"

section \<open>GoalResolutionManager\<close>

definition initializeGoalResolution :: "game_state \<Rightarrow> game_state" where
  "initializeGoalResolution s =
     s\<lparr>goalResolution := Some \<lparr>gr_currentPlayerIndex = 0, revealedGoals = [],
                                  pendingRewardExecution = None\<rparr>\<rparr>"

fun updateGoal :: "string \<Rightarrow> (goal_card \<Rightarrow> goal_card) \<Rightarrow> goal_card list \<Rightarrow> goal_card list" where
  "updateGoal gid f [] = []"
| "updateGoal gid f (g # gs) = (if goal_id g = gid then f g # gs else g # updateGoal gid f gs)"

definition applyStockChange :: "price_config \<Rightarrow> game_state \<Rightarrow> goal_card \<Rightarrow> game_state" where
  "applyStockChange cfg s goalCard =
     (if stockChangeParsed goalCard \<noteq> []
      then (case applyChanges cfg (stockPrices s, nonNumberPrices s) (stockChangeParsed goalCard) of
              (newPrices, others) \<Rightarrow> s\<lparr>stockPrices := newPrices, nonNumberPrices := others\<rparr>)
      else s)"

definition advanceToNextPlayer :: "game_state \<Rightarrow> game_state" where
  "advanceToNextPlayer s =
     (case goalResolution s of
        None \<Rightarrow> s
      | Some g \<Rightarrow> s\<lparr>goalResolution := Some (g\<lparr>gr_currentPlayerIndex := gr_currentPlayerIndex g + 1\<rparr>)\<rparr>)"

fun markRewardExecuted :: "string \<Rightarrow> revealed_goal list \<Rightarrow> revealed_goal list" where
  "markRewardExecuted pid [] = []"
| "markRewardExecuted pid (r # rs) =
     (if rg_playerId r = pid \<and> \<not> rewardExecuted r then r\<lparr>rewardExecuted := True\<rparr> # rs
      else r # markRewardExecuted pid rs)"

definition completeRewardExecution :: "game_state \<Rightarrow> string \<Rightarrow> game_state" where
  "completeRewardExecution s pid =
     (case goalResolution s of
        None \<Rightarrow> s
      | Some g \<Rightarrow>
          advanceToNextPlayer
            (s\<lparr>goalResolution := Some (g\<lparr>revealedGoals := markRewardExecuted pid (revealedGoals g),
                                          pendingRewardExecution := None\<rparr>)\<rparr>))"

definition setPendingReward :: "game_state \<Rightarrow> string \<Rightarrow> goal_card \<Rightarrow> game_state" where
  "setPendingReward s pid goalCard =
     (case goalResolution s of
        None \<Rightarrow> s
      | Some g \<Rightarrow>
          s\<lparr>goalResolution := Some (g\<lparr>pendingRewardExecution :=
               Some \<lparr>pr_playerId = pid, pr_rewardType = rewardType (rewardParsed goalCard),
                     pr_goalCard = goalCard\<rparr>\<rparr>)\<rparr>)"

definition initiateRewardExecution ::
  "price_config \<Rightarrow> game_state \<Rightarrow> string \<Rightarrow> goal_card \<Rightarrow> nat \<Rightarrow> game_state" where
  "initiateRewardExecution cfg s pid goalCard rnd =
     (case RewardSystem_executeReward cfg s pid (rewardParsed goalCard) None rnd of
        Executed s1 \<Rightarrow> completeRewardExecution s1 pid
      | NeedsInput \<Rightarrow> setPendingReward s pid goalCard
      | Threw s1 \<Rightarrow> s1)"

definition revealGoal :: "price_config \<Rightarrow> game_state \<Rightarrow> string \<Rightarrow> string \<Rightarrow> nat \<Rightarrow> game_state" where
  "revealGoal cfg s pid goalCardId rnd =
     (case getPlayer s pid of
        None \<Rightarrow> s
      | Some p \<Rightarrow>
          (case find (\<lambda>gc. goal_id gc = goalCardId) (goalCards p) of
             None \<Rightarrow> s
           | Some gc \<Rightarrow>
               (let goalCard = gc\<lparr>revealed := True\<rparr>;
                    s1 = s\<lparr>players := updatePlayer pid
                            (\<lambda>q. q\<lparr>goalCards := updateGoal goalCardId (\<lambda>x. x\<lparr>revealed := True\<rparr>)
                                                  (goalCards q)\<rparr>) (players s)\<rparr>;
                    s2 = applyStockChange cfg s1 goalCard;
                    met = checkGoal goalCard (hand p)
                in case goalResolution s2 of
                     None \<Rightarrow> s2
                   | Some g \<Rightarrow>
                       (let s3 = s2\<lparr>goalResolution := Some (g\<lparr>revealedGoals := revealedGoals g @
                                     [\<lparr>rg_playerId = pid, rg_goalCard = goalCard, goalMet = met,
                                       rewardExecuted = False\<rparr>]\<rparr>)\<rparr>
                        in if met then initiateRewardExecution cfg s3 pid goalCard rnd
                           else advanceToNextPlayer s3))))"

definition GoalResolutionManager_executeReward ::
  "price_config \<Rightarrow> game_state \<Rightarrow> string \<Rightarrow> choices option \<Rightarrow> nat \<Rightarrow> game_state" where
  "GoalResolutionManager_executeReward cfg s pid chs rnd =
     (case goalResolution s of
        None \<Rightarrow> s
      | Some g \<Rightarrow>
          (case pendingRewardExecution g of
             None \<Rightarrow> s
           | Some pend \<Rightarrow>
               (case RewardSystem_executeReward cfg s pid (rewardParsed (pr_goalCard pend)) chs rnd of
                  Executed s1 \<Rightarrow> completeRewardExecution s1 pid
                | NeedsInput \<Rightarrow> s
                | Threw s1 \<Rightarrow> s1)))"

definition isGoalResolutionComplete :: "game_state \<Rightarrow> bool" where
  "isGoalResolutionComplete s =
     (case goalResolution s of
        None \<Rightarrow> False
      | Some g \<Rightarrow> gr_currentPlayerIndex g \<ge> length (players s) \<and> pendingRewardExecution g = None)"

section \<open>The player-scoped view\<close>

text \<open>
  \<open>filterForPlayer\<close> builds a new object.  A card in it is either the card itself (id, type
  and colour) or the literal \<open>{type: 'resource', color: 'hidden'}\<close>; a goal card is the card
  itself, the literal \<open>{type: 'goal', revealed: false}\<close>, or \<open>{type: 'goal'}\<close> for the undealt
  deck.  Every other field of the state is copied by the spread \<open>...state\<close>.  The players'
  cash is a whole number in the model, the current bid of the auction a number.
\<close>

record card_view =
  view_id :: "string option"
  view_type :: string
  view_color :: string

datatype goal_view = FullGoal goal_card | RedactedGoal bool | BlankGoal

record player_view =
  pv_id :: string
  pv_name :: string
  pv_cash :: int
  pv_hand :: "card_view list"
  pv_goalCards :: "goal_view list"
  pv_sellBonus :: int

record state_view =
  v_players :: "player_view list"
  v_drawPile :: "card_view list"
  v_discardPile :: "card list"
  v_goalDeck :: "goal_view list"
  v_stockPrices :: "string \<rightharpoonup> int"
  v_currentPhase :: "phase option"
  v_currentRound :: nat
  v_totalRounds :: nat
  v_tradingDuration :: int
  v_gameCompleted :: bool
  v_auction :: "auction_state option"
  v_trading :: "trading_state option"
  v_goalResolution :: "goal_resolution_state option"
  v_sell :: "sell_state option"
  v_turnOrder :: "string list"
  v_dealerIndex :: nat
  v_nonNumberPrices :: "string list"
  v_anomalies :: "anomaly list"

definition shownCard :: "card \<Rightarrow> card_view" where
  "shownCard c = \<lparr>view_id = Some (card_id c), view_type = ''resource'', view_color = color c\<rparr>"

definition hiddenCard :: card_view where
  "hiddenCard = \<lparr>view_id = None, view_type = ''resource'', view_color = ''hidden''\<rparr>"

definition filterPlayer :: "string \<Rightarrow> player \<Rightarrow> player_view" where
  "filterPlayer pid p =
     (if player_id p = pid
      then \<lparr>pv_id = player_id p, pv_name = name p, pv_cash = cash p,
            pv_hand = map shownCard (hand p),
            pv_goalCards = map FullGoal (goalCards p),
            pv_sellBonus = sellBonus p\<rparr>
      else \<lparr>pv_id = player_id p, pv_name = name p, pv_cash = cash p,
            pv_hand = map (\<lambda>c. hiddenCard) (hand p),
            pv_goalCards = map (\<lambda>g. if revealed g then FullGoal g else RedactedGoal False) (goalCards p),
            pv_sellBonus = sellBonus p\<rparr>)"

definition filterForPlayer :: "game_state \<Rightarrow> string \<Rightarrow> state_view" where
  "filterForPlayer s pid =
     \<lparr>v_players = map (filterPlayer pid) (players s),
      v_drawPile = map (\<lambda>c. hiddenCard) (drawPile (resourceDeck s)),
      v_discardPile = discardPile (resourceDeck s),
      v_goalDeck = map (\<lambda>g. BlankGoal) (goalDeck s),
      v_stockPrices = stockPrices s,
      v_currentPhase = currentPhase s,
      v_currentRound = currentRound s,
      v_totalRounds = totalRounds s,
      v_tradingDuration = tradingDuration s,
      v_gameCompleted = gameCompleted s,
      v_auction = auction s,
      v_trading = trading s,
      v_goalResolution = goalResolution s,
      v_sell = sell s,
      v_turnOrder = turnOrder s,
      v_dealerIndex = dealerIndex s,
      v_nonNumberPrices = nonNumberPrices s,
      v_anomalies = anomalies s\<rparr>"

text \<open>
  What the claim about the view compares: two states that agree everywhere except in
  the hand cards of players other than \<open>pid\<close> (the hands have the same number of cards)
  and in the contents of those players' unrevealed goal cards (same number of goal cards,
  same revealed flags, revealed cards equal).
\<close>

definition same_goal_outline :: "goal_card \<Rightarrow> goal_card \<Rightarrow> bool" where
  "same_goal_outline g h \<longleftrightarrow> revealed g = revealed h \<and> (revealed g \<longrightarrow> g = h)"

definition same_but_hidden_player :: "string \<Rightarrow> player \<Rightarrow> player \<Rightarrow> bool" where
  "same_but_hidden_player pid p q \<longleftrightarrow>
     (if player_id p = pid then p = q
      else player_id q = player_id p \<and> name q = name p \<and> cash q = cash p
           \<and> sellBonus q = sellBonus p
           \<and> length (hand q) = length (hand p)
           \<and> list_all2 same_goal_outline (goalCards p) (goalCards q))"

definition same_but_hidden :: "string \<Rightarrow> game_state \<Rightarrow> game_state \<Rightarrow> bool" where
  "same_but_hidden pid s t \<longleftrightarrow>
     list_all2 (same_but_hidden_player pid) (players s) (players t)
     \<and> t\<lparr>players := players s\<rparr> = s"

section \<open>Predicates of the statements and example data\<close>


text \<open>No player's cash is negative.\<close>

definition cash_nonneg :: "game_state \<Rightarrow> bool" where
  "cash_nonneg s \<longleftrightarrow> list_all (\<lambda>p. 0 \<le> cash p) (players s)"


text \<open>
  Example data: the defaults of the repository (three players with $5 each, every price
  at $4, floor 0 and no ceiling) and a goal card with effect \<open>{Blue: +2}\<close>, requirement
  "2 Blue" and reward "gain $1".
\<close>

definition mkCard :: "string \<Rightarrow> string \<Rightarrow> card" where
  "mkCard i c = \<lparr>card_id = i, color = c\<rparr>"

definition mkPlayer :: "string \<Rightarrow> card list \<Rightarrow> goal_card list \<Rightarrow> player" where
  "mkPlayer i h gs = \<lparr>player_id = i, name = i, cash = 5, hand = h, goalCards = gs, sellBonus = 0\<rparr>"


definition blueGoal :: "string \<Rightarrow> goal_card" where
  "blueGoal i =
     \<lparr>goal_id = i, revealed = False, stockChangeParsed = [(''Blue'', 2)],
      goalParsed = Some \<lparr>goalType = PAIR, requirements = [(''Blue'', 2)], avoidColor = []\<rparr>,
      rewardParsed = \<lparr>rewardType = GAIN_CASH, amount = Some 1, discount = None, bonus = None,
                      requiresTarget = False, requiresChoice = False\<rparr>\<rparr>"


definition exampleState :: "player list \<Rightarrow> phase \<Rightarrow> game_state" where
  "exampleState ps ph =
     \<lparr>players = ps,
      stockPrices = [''Blue'' \<mapsto> 4, ''Orange'' \<mapsto> 4, ''Yellow'' \<mapsto> 4, ''Purple'' \<mapsto> 4],
      resourceDeck = \<lparr>drawPile = [mkCard ''r1'' ''Blue'', mkCard ''r2'' ''Orange'',
                                   mkCard ''r3'' ''Yellow'', mkCard ''r4'' ''Purple'',
                                   mkCard ''r5'' ''Blue'', mkCard ''r6'' ''Orange''],
                      discardPile = []\<rparr>,
      goalDeck = [],
      currentPhase = Some ph,
      currentRound = 1,
      totalRounds = 3,
      tradingDuration = 120000,
      gameCompleted = False,
      auction = None,
      trading = None,
      goalResolution = None,
      sell = None,
      turnOrder = map player_id ps,
      dealerIndex = 0,
      nonNumberPrices = [],
      anomalies = []\<rparr>"

definition threePlayers :: "player list" where
  "threePlayers = [mkPlayer ''p1'' [] [], mkPlayer ''p2'' [] [], mkPlayer ''p3'' [] []]"

definition viewStateA :: game_state where
  "viewStateA = exampleState
     [mkPlayer ''p1'' [mkCard ''b1'' ''Blue''] [blueGoal ''g1''],
      mkPlayer ''p2'' [mkCard ''o1'' ''Orange''] [blueGoal ''g2'']] GOAL_RESOLUTION"

definition viewStateB :: game_state where
  "viewStateB = exampleState
     [mkPlayer ''p1'' [mkCard ''b1'' ''Blue''] [blueGoal ''g1''],
      mkPlayer ''p2'' [mkCard ''o1'' ''Yellow'']
        [(blueGoal ''g2'')\<lparr>stockChangeParsed := [(''Orange'', -1)]\<rparr>]] GOAL_RESOLUTION"


section \<open>TurnSystem\<close>

definition isTimeExpired :: "game_state \<Rightarrow> bool" where
  "isTimeExpired s = (case trading s of None \<Rightarrow> False | Some t \<Rightarrow> timeRemaining t \<le> 0)"

definition canAdvancePhase :: "game_state \<Rightarrow> bool" where
  "canAdvancePhase s =
     (case currentPhase s of
        Some AUCTION \<Rightarrow> isAuctionComplete s
      | Some TRADING \<Rightarrow> isTimeExpired s
      | Some GOAL_RESOLUTION \<Rightarrow> isGoalResolutionComplete s
      | Some SELL \<Rightarrow> areAllCommitted s
      | None \<Rightarrow> False)"

definition getNextPhase :: "phase option \<Rightarrow> phase option" where
  "getNextPhase ph =
     (case ph of
        Some AUCTION \<Rightarrow> Some TRADING
      | Some TRADING \<Rightarrow> Some GOAL_RESOLUTION
      | Some GOAL_RESOLUTION \<Rightarrow> Some SELL
      | Some SELL \<Rightarrow> None
      | None \<Rightarrow> None)"

text \<open>
  \<open>cleanupPhase\<close> sets \<open>phaseState[phase]\<close> to \<open>null\<close>, with the name of the phase as the key.
  The names \<open>'auction'\<close>, \<open>'trading'\<close> and \<open>'sell'\<close> are the keys of three of the phase states;
  \<open>'goal_resolution'\<close> is not the key \<open>goalResolution\<close>, so leaving the goal resolution phase
  clears nothing that the engine reads.
\<close>

definition cleanupPhase :: "game_state \<Rightarrow> phase option \<Rightarrow> game_state" where
  "cleanupPhase s ph =
     (case ph of
        None \<Rightarrow> s
      | Some AUCTION \<Rightarrow> s\<lparr>auction := None\<rparr>
      | Some TRADING \<Rightarrow> s\<lparr>trading := None\<rparr>
      | Some GOAL_RESOLUTION \<Rightarrow> s
      | Some SELL \<Rightarrow> s\<lparr>sell := None\<rparr>)"

definition initializePhase :: "game_state \<Rightarrow> phase \<Rightarrow> game_state" where
  "initializePhase s ph =
     (case ph of
        AUCTION \<Rightarrow> initializeAuction s
      | TRADING \<Rightarrow> initializeTrading s
      | GOAL_RESOLUTION \<Rightarrow> initializeGoalResolution s
      | SELL \<Rightarrow> initializeSell s)"

definition transitionToPhase :: "game_state \<Rightarrow> phase \<Rightarrow> game_state" where
  "transitionToPhase s ph =
     initializePhase ((cleanupPhase s (currentPhase s))\<lparr>currentPhase := Some ph\<rparr>) ph"

definition advanceRound :: "game_state \<Rightarrow> game_state" where
  "advanceRound s =
     s\<lparr>currentRound := currentRound s + 1,
       dealerIndex := (dealerIndex s + 1) mod length (players s)\<rparr>"

definition endGame :: "game_state \<Rightarrow> game_state" where
  "endGame s = s\<lparr>gameCompleted := True\<rparr>"

definition completeRound :: "game_state \<Rightarrow> game_state" where
  "completeRound s =
     (if currentRound s < totalRounds s then transitionToPhase (advanceRound s) AUCTION
      else endGame s)"

definition advancePhase :: "game_state \<Rightarrow> game_state" where
  "advancePhase s =
     (case getNextPhase (currentPhase s) of
        None \<Rightarrow> completeRound s
      | Some ph \<Rightarrow> transitionToPhase s ph)"

definition manuallyEndPhase :: "game_state \<Rightarrow> game_state" where
  "manuallyEndPhase s = (if currentPhase s = Some TRADING then advancePhase s else s)"

section \<open>GameEngine: validating and dispatching an action\<close>

text \<open>
  An action as the engine receives it, together with what the environment contributes
  while it is executed: the id that \<open>uuid()\<close> returns for a new offer, and the number that
  \<open>Math.random\<close> yields for a reward.
\<close>

datatype action =
    PLACE_BID string "real option"
  | PASS string
  | PROPOSE_TRADE string string "string list" int "card_request list" int
  | ACCEPT_TRADE string string
  | CANCEL_TRADE string string
  | END_TRADING
  | REVEAL_GOAL string string nat
  | EXECUTE_REWARD string "choices option" nat
  | SELECT_CARDS_TO_SELL string "string list"
  | COMMIT_SELL string

fun validateAction :: "game_state \<Rightarrow> action \<Rightarrow> validation" where
  "validateAction s (PLACE_BID pid amt) = validateBid s pid amt"
| "validateAction s (PASS pid) = validatePass s pid"
| "validateAction s (PROPOSE_TRADE newId pid offCards offCash reqCards reqCash) =
     validateTradeProposal s pid offCards offCash reqCards reqCash"
| "validateAction s (ACCEPT_TRADE pid oid) = validateTradeAcceptance s pid oid"
| "validateAction s (CANCEL_TRADE pid oid) = validateTradeCancellation s pid oid"
| "validateAction s END_TRADING = Valid"
| "validateAction s (REVEAL_GOAL pid goalCardId rnd) = validateGoalReveal s pid goalCardId"
| "validateAction s (EXECUTE_REWARD pid chs rnd) = validateRewardExecution s pid"
| "validateAction s (SELECT_CARDS_TO_SELL pid cardIds) = validateSellSelection s pid cardIds"
| "validateAction s (COMMIT_SELL pid) = validateSellCommit s pid"

fun dispatchAction :: "price_config \<Rightarrow> game_state \<Rightarrow> action \<Rightarrow> game_state" where
  "dispatchAction cfg s (PLACE_BID pid amt) = placeBid s pid amt"
| "dispatchAction cfg s (PASS pid) = pass s pid"
| "dispatchAction cfg s (PROPOSE_TRADE newId pid offCards offCash reqCards reqCash) =
     proposeTrade s newId pid offCards offCash reqCards reqCash"
| "dispatchAction cfg s (ACCEPT_TRADE pid oid) = acceptTrade s pid oid"
| "dispatchAction cfg s (CANCEL_TRADE pid oid) = cancelTrade s oid"
| "dispatchAction cfg s END_TRADING = manuallyEndPhase s"
| "dispatchAction cfg s (REVEAL_GOAL pid goalCardId rnd) = revealGoal cfg s pid goalCardId rnd"
| "dispatchAction cfg s (EXECUTE_REWARD pid chs rnd) =
     GoalResolutionManager_executeReward cfg s pid chs rnd"
| "dispatchAction cfg s (SELECT_CARDS_TO_SELL pid cardIds) = selectCardsToSell s pid cardIds"
| "dispatchAction cfg s (COMMIT_SELL pid) = commitSell s pid"

text \<open>
  \<open>executeAction\<close>: an invalid action throws and leaves the state as it is; a valid one is
  dispatched, and the phase advances when the turn system says it can.
\<close>

definition executeAction :: "price_config \<Rightarrow> game_state \<Rightarrow> action \<Rightarrow> game_state" where
  "executeAction cfg s a =
     (case validateAction s a of
        Invalid reason \<Rightarrow> s
      | Valid \<Rightarrow>
          (let s1 = dispatchAction cfg s a in
           if canAdvancePhase s1 then advancePhase s1 else s1))"

definition start :: "game_state \<Rightarrow> game_state" where
  "start s = transitionToPhase s AUCTION"

section \<open>Runs of one auction card\<close>

text \<open>
  The index of the card under auction, and the runs the termination claim speaks of: bids
  and passes, each passing validation in the state it meets, none of them closing the
  card.
\<close>

definition cardIndexOf :: "game_state \<Rightarrow> nat option" where
  "cardIndexOf s = map_option currentCardIndex (auction s)"



definition maxCash :: "game_state \<Rightarrow> int" where
  "maxCash s = fold max (map cash (players s)) 0"

definition auctionMeasure :: "game_state \<Rightarrow> nat" where
  "auctionMeasure s =
     (case auction s of
        None \<Rightarrow> 0
      | Some a \<Rightarrow>
          (case currentBid a of None \<Rightarrow> 0 | Some r \<Rightarrow> nat (maxCash s - \<lfloor>r\<rfloor>))
          + set_size (activeBidders a))"


text \<open>
  The states of an auction phase with bids in whole dollars.  The phase is entered
  (\<open>transitionToPhase\<close>) with nobody in debt, with no player whose id is the empty string
  (\<open>createInitialState\<close> gives such a player a fresh id) and with nothing on record that
  the model cannot hold; then bids in whole dollars and passes follow, each passing
  validation in the state it meets.  The engine leaves the phase as soon as the last card
  is closed (\<open>executeAction\<close>), so a bid or a pass meets an auction that is not complete.
\<close>

inductive auction_reachable :: "game_state \<Rightarrow> bool" where
  entered: "cash_nonneg s \<Longrightarrow> [] \<notin> set (map player_id (players s)) \<Longrightarrow> anomalies s = []
            \<Longrightarrow> auction_reachable (transitionToPhase s AUCTION)"
| bid: "auction_reachable s \<Longrightarrow> \<not> isAuctionComplete s
        \<Longrightarrow> validateBid s pid (Some (of_int n)) = Valid
        \<Longrightarrow> auction_reachable (placeBid s pid (Some (of_int n)))"
| passed: "auction_reachable s \<Longrightarrow> \<not> isAuctionComplete s \<Longrightarrow> validatePass s pid = Valid
           \<Longrightarrow> auction_reachable (pass s pid)"

text \<open>
  What holds in these states: the active bidders are players; while a card is open it is
  the card at the current index, and the current bid is 0 with no high bidder, or a whole
  amount that the high bidder, a player, can pay.
\<close>

definition bidBacked :: "game_state \<Rightarrow> bool" where
  "bidBacked s \<longleftrightarrow>
     (case auction s of
        None \<Rightarrow> False
      | Some a \<Rightarrow>
          set (activeBidders a) \<subseteq> set (map player_id (players s))
          \<and> (currentCardIndex a < length (cardsToAuction a) \<longrightarrow>
                currentCard a = Some (cardsToAuction a ! currentCardIndex a)
                \<and> (case currentHighBidder a of
                       None \<Rightarrow> currentBid a = Some 0
                     | Some h \<Rightarrow>
                         h \<noteq> [] \<and> (\<exists>p n. getPlayer s h = Some p
                                          \<and> currentBid a = Some (of_int n) \<and> n \<le> cash p))))"

definition wholeDollarAuction :: "game_state \<Rightarrow> bool" where
  "wholeDollarAuction s \<longleftrightarrow>
     cash_nonneg s \<and> [] \<notin> set (map player_id (players s)) \<and> anomalies s = [] \<and> bidBacked s"

text \<open>
  The seat at which the rotation of \<open>advanceToNextActiveBidder\<close> arrives from the seat
  \<open>cur\<close> when \<open>active\<close> are the bidders still in; the seat stays when the loop finds none.
\<close>

definition nextBidderIndex :: "game_state \<Rightarrow> string list \<Rightarrow> nat \<Rightarrow> nat" where
  "nextBidderIndex s active cur =
     (let n = length (players s) in
      case nextActiveBidder (turnOrder s) active n ((cur + 1) mod n) n of
        Some i \<Rightarrow> i
      | None \<Rightarrow> cur)"

text \<open>
  An auction of the example game: the phase starts, p1 bids $2 and p2 passes; p1 is the
  high bidder and p1 and p3 are still active.
\<close>

definition auctionStart :: game_state where
  "auctionStart = initializeAuction (exampleState threePlayers AUCTION)"

definition bidPlaced :: game_state where
  "bidPlaced = placeBid auctionStart ''p1'' (Some 2)"

definition afterBidAndPass :: game_state where
  "afterBidAndPass = pass (placeBid auctionStart ''p1'' (Some 2)) ''p2''"


definition bidAndPassAuction :: auction_state where
  "bidAndPassAuction =
     \<lparr>cardsToAuction = [mkCard ''r1'' ''Blue'', mkCard ''r2'' ''Orange'', mkCard ''r3'' ''Yellow'',
                        mkCard ''r4'' ''Purple'', mkCard ''r5'' ''Blue''],
      currentCardIndex = 0,
      currentCard = Some (mkCard ''r1'' ''Blue''),
      currentBid = Some 2,
      currentHighBidder = Some ''p1'',
      activeBidders = [''p1'', ''p3''],
      currentPlayerIndex = 2,
      lastRaiserIndex = Some 0\<rparr>"

text \<open>The selection the sell phase has on record for a player.\<close>

definition recordedSelection :: "game_state \<Rightarrow> string \<Rightarrow> selection option" where
  "recordedSelection s pid =
     (case sell s of None \<Rightarrow> None | Some sl \<Rightarrow> map_of (playerSelections sl) pid)"

text \<open>
  A sell phase of the example game in which p1 holds a Blue and an Orange card, selects
  the Blue one and commits.
\<close>

definition sellPlayers :: "player list" where
  "sellPlayers = [mkPlayer ''p1'' [mkCard ''s1'' ''Blue'', mkCard ''s2'' ''Orange''] [],
                  mkPlayer ''p2'' [] [], mkPlayer ''p3'' [] []]"

definition sellStart :: game_state where
  "sellStart = initializeSell (exampleState sellPlayers SELL)"

definition sellCommitted :: game_state where
  "sellCommitted = commitSell (selectCardsToSell sellStart ''p1'' [''s1'']) ''p1''"



text \<open>
  A goal-resolution phase of the example game in which p1 holds exactly two Blue cards
  and the goal card "2 Blue, Blue +2, gain $1".
\<close>

definition goalPlayers :: "player list" where
  "goalPlayers = [mkPlayer ''p1'' [mkCard ''b1'' ''Blue'', mkCard ''b2'' ''Blue''] [blueGoal ''g1''],
                  mkPlayer ''p2'' [] [], mkPlayer ''p3'' [] []]"

definition goalStart :: game_state where
  "goalStart = initializeGoalResolution (exampleState goalPlayers GOAL_RESOLUTION)"





section \<open>Trading-phase states\<close>


text \<open>Every active offer is backed: its proposer exists and has the offered cash.\<close>

definition offerBacked :: "game_state \<Rightarrow> offer \<Rightarrow> bool" where
  "offerBacked s ofr \<longleftrightarrow>
     (status ofr = ACTIVE \<longrightarrow>
        (case getPlayer s (offeringPlayer ofr) of
           None \<Rightarrow> False
         | Some p \<Rightarrow> offering_cash ofr \<le> cash p))"


text \<open>The value of a card and of a player's hand at the current prices, and a player's cash.\<close>

definition cardValue :: "(string \<rightharpoonup> int) \<Rightarrow> card \<Rightarrow> int" where
  "cardValue prices c = (case prices (color c) of None \<Rightarrow> 0 | Some p \<Rightarrow> p)"

definition handValueOf :: "game_state \<Rightarrow> string \<Rightarrow> int" where
  "handValueOf s q =
     (case getPlayer s q of
        None \<Rightarrow> 0
      | Some p \<Rightarrow> sum_list (map (cardValue (stockPrices s)) (hand p)))"





text \<open>
  An example trading phase: p1 holds a Blue card, p2 two Orange cards.  p1 offers the Blue
  card and 2 in cash for two Orange cards and 1 in cash.
\<close>

definition tradePlayers :: "player list" where
  "tradePlayers =
     [mkPlayer ''p1'' [mkCard ''b1'' ''Blue''] [],
      mkPlayer ''p2'' [mkCard ''o1'' ''Orange'', mkCard ''o2'' ''Orange''] [],
      mkPlayer ''p3'' [] []]"

definition tradeStart :: game_state where
  "tradeStart = transitionToPhase (exampleState tradePlayers AUCTION) TRADING"

definition tradeOffer :: offer where
  "tradeOffer =
     \<lparr>offerId = ''t1'', offeringPlayer = ''p1'', offering_cards = [''b1''], offering_cash = 2,
      requesting_cards = [\<lparr>req_color = ''Orange'', req_count = 2\<rparr>], requesting_cash = 1,
      status = ACTIVE\<rparr>"

definition tradeOffered :: game_state where
  "tradeOffered =
     proposeTrade tradeStart ''t1'' ''p1'' [''b1''] 2 [\<lparr>req_color = ''Orange'', req_count = 2\<rparr>] 1"


section \<open>Price clamping\<close>








section \<open>Rearranging the top of the draw pile\<close>







section \<open>The filtered view\<close>

lemma goal_view_outline:
  assumes "same_goal_outline g h"
  shows "(if revealed g then FullGoal g else RedactedGoal False)
       = (if revealed h then FullGoal h else RedactedGoal False)"
proof (cases "revealed g")
  case True
  with assms have "g = h" by (simp add: same_goal_outline_def)
  then show ?thesis by simp
next
  case False
  with assms have "\<not> revealed h" by (simp add: same_goal_outline_def)
  with False show ?thesis by simp
qed

lemma filterPlayer_hidden_eq:
  assumes "same_but_hidden_player pid p q"
  shows "filterPlayer pid p = filterPlayer pid q"
proof (cases "player_id p = pid")
  case True
  with assms show ?thesis by (simp add: same_but_hidden_player_def)
next
  case False
  with assms have q: "player_id q \<noteq> pid" "player_id q = player_id p" "name q = name p"
      "cash q = cash p" "sellBonus q = sellBonus p" "length (hand q) = length (hand p)"
      and g: "list_all2 same_goal_outline (goalCards p) (goalCards q)"
    by (simp_all add: same_but_hidden_player_def)
  have h: "map (\<lambda>c. hiddenCard) (hand p) = map (\<lambda>c. hiddenCard) (hand q)"
    using q(6) by (simp add: map_replicate_const)
  have "map (\<lambda>g. if revealed g then FullGoal g else RedactedGoal False) (goalCards p)
      = map (\<lambda>g. if revealed g then FullGoal g else RedactedGoal False) (goalCards q)"
    using g by (induction rule: list_all2_induct) (simp_all add: goal_view_outline)
  with False q h show ?thesis unfolding filterPlayer_def by simp
qed

lemma map_filterPlayer_hidden_eq:
  "list_all2 (same_but_hidden_player pid) ps qs
   \<Longrightarrow> map (filterPlayer pid) ps = map (filterPlayer pid) qs"
  by (induction rule: list_all2_induct) (simp_all add: filterPlayer_hidden_eq)

text \<open>
  C9: in the view for \<open>pid\<close>, every other player's hand is a list of as many
  \<open>{type: 'resource', color: 'hidden'}\<close> records as the hand has cards, and each of their
  goal cards is shown in full when revealed and is otherwise the content-free record that
  keeps only the revealed flag; the cards of \<open>pid\<close> are shown in full, each with its id, its
  type and its colour, and so are the goal cards of \<open>pid\<close>.  Hence two states that differ
  only in other players' hand cards or in the contents of other players' unrevealed goal
  cards have the same view.
\<close>

theorem C9_filtered_view:
  "list_all2 (\<lambda>p v. pv_id v = player_id p \<and> pv_name v = name p \<and> pv_cash v = cash p \<and>
       (if player_id p = pid
        then pv_hand v
               = map (\<lambda>c. \<lparr>view_id = Some (card_id c), view_type = ''resource'',
                             view_color = color c\<rparr>) (hand p)
             \<and> pv_goalCards v = map FullGoal (goalCards p)
        else pv_hand v
               = replicate (length (hand p))
                   \<lparr>view_id = None, view_type = ''resource'', view_color = ''hidden''\<rparr>
             \<and> pv_goalCards v
                 = map (\<lambda>g. if revealed g then FullGoal g else RedactedGoal (revealed g)) (goalCards p)))
     (players s) (v_players (filterForPlayer s pid))
   \<and> (same_but_hidden pid s t \<longrightarrow> filterForPlayer s pid = filterForPlayer t pid)"
proof
  have "list_all2 (\<lambda>p v. pv_id v = player_id p \<and> pv_name v = name p \<and> pv_cash v = cash p \<and>
       (if player_id p = pid
        then pv_hand v
               = map (\<lambda>c. \<lparr>view_id = Some (card_id c), view_type = ''resource'',
                             view_color = color c\<rparr>) (hand p)
             \<and> pv_goalCards v = map FullGoal (goalCards p)
        else pv_hand v
               = replicate (length (hand p))
                   \<lparr>view_id = None, view_type = ''resource'', view_color = ''hidden''\<rparr>
             \<and> pv_goalCards v
                 = map (\<lambda>g. if revealed g then FullGoal g else RedactedGoal (revealed g)) (goalCards p)))
     ps (map (filterPlayer pid) ps)" for ps
    by (induction ps)
       (auto simp: filterPlayer_def hiddenCard_def shownCard_def map_replicate_const)
  then show "list_all2 (\<lambda>p v. pv_id v = player_id p \<and> pv_name v = name p \<and> pv_cash v = cash p \<and>
       (if player_id p = pid
        then pv_hand v
               = map (\<lambda>c. \<lparr>view_id = Some (card_id c), view_type = ''resource'',
                             view_color = color c\<rparr>) (hand p)
             \<and> pv_goalCards v = map FullGoal (goalCards p)
        else pv_hand v
               = replicate (length (hand p))
                   \<lparr>view_id = None, view_type = ''resource'', view_color = ''hidden''\<rparr>
             \<and> pv_goalCards v
                 = map (\<lambda>g. if revealed g then FullGoal g else RedactedGoal (revealed g)) (goalCards p)))
     (players s) (v_players (filterForPlayer s pid))"
    by (simp add: filterForPlayer_def)
next
  show "same_but_hidden pid s t \<longrightarrow> filterForPlayer s pid = filterForPlayer t pid"
  proof
    assume a: "same_but_hidden pid s t"
    then have ps: "map (filterPlayer pid) (players s) = map (filterPlayer pid) (players t)"
      by (simp add: same_but_hidden_def map_filterPlayer_hidden_eq)
    from a have e: "t\<lparr>players := players s\<rparr> = s" by (simp add: same_but_hidden_def)
    have r: "resourceDeck s = resourceDeck t" "goalDeck s = goalDeck t" "stockPrices s = stockPrices t"
      "currentPhase s = currentPhase t" "currentRound s = currentRound t" "totalRounds s = totalRounds t"
      "tradingDuration s = tradingDuration t"
      "gameCompleted s = gameCompleted t" "auction s = auction t" "trading s = trading t"
      "goalResolution s = goalResolution t" "sell s = sell t" "turnOrder s = turnOrder t"
      "dealerIndex s = dealerIndex t" "nonNumberPrices s = nonNumberPrices t"
      "anomalies s = anomalies t"
      using arg_cong [OF e, of resourceDeck] arg_cong [OF e, of goalDeck]
        arg_cong [OF e, of stockPrices] arg_cong [OF e, of currentPhase]
        arg_cong [OF e, of currentRound] arg_cong [OF e, of totalRounds]
        arg_cong [OF e, of tradingDuration]
        arg_cong [OF e, of gameCompleted] arg_cong [OF e, of auction]
        arg_cong [OF e, of trading] arg_cong [OF e, of goalResolution]
        arg_cong [OF e, of sell] arg_cong [OF e, of turnOrder] arg_cong [OF e, of dealerIndex]
        arg_cong [OF e, of nonNumberPrices] arg_cong [OF e, of anomalies]
      by simp_all
    show "filterForPlayer s pid = filterForPlayer t pid"
      using ps r by (simp add: filterForPlayer_def)
  qed
qed

theorem C9_filtered_view_witness:
  "same_but_hidden ''p1'' viewStateA viewStateB
   \<and> hand (players viewStateA ! 1) \<noteq> hand (players viewStateB ! 1)
   \<and> goalCards (players viewStateA ! 1) \<noteq> goalCards (players viewStateB ! 1)
   \<and> filterForPlayer viewStateA ''p1'' = filterForPlayer viewStateB ''p1''
   \<and> pv_hand (v_players (filterForPlayer viewStateA ''p1'') ! 1)
       = [\<lparr>view_id = None, view_type = ''resource'', view_color = ''hidden''\<rparr>]
   \<and> pv_goalCards (v_players (filterForPlayer viewStateA ''p1'') ! 1) = [RedactedGoal False]
   \<and> pv_hand (v_players (filterForPlayer viewStateA ''p1'') ! 0)
       = [\<lparr>view_id = Some ''b1'', view_type = ''resource'', view_color = ''Blue''\<rparr>]
   \<and> pv_goalCards (v_players (filterForPlayer viewStateA ''p1'') ! 0) = [FullGoal (blueGoal ''g1'')]"
proof -
  have h: "same_but_hidden ''p1'' viewStateA viewStateB"
    by (simp add: same_but_hidden_def same_but_hidden_player_def same_goal_outline_def
        viewStateA_def viewStateB_def exampleState_def mkPlayer_def blueGoal_def)
  have d: "hand (players viewStateA ! 1) \<noteq> hand (players viewStateB ! 1)"
      "goalCards (players viewStateA ! 1) \<noteq> goalCards (players viewStateB ! 1)"
    by (simp_all add: viewStateA_def viewStateB_def exampleState_def mkPlayer_def mkCard_def
        blueGoal_def)
  have v: "pv_hand (v_players (filterForPlayer viewStateA ''p1'') ! 1)
       = [\<lparr>view_id = None, view_type = ''resource'', view_color = ''hidden''\<rparr>]"
      "pv_goalCards (v_players (filterForPlayer viewStateA ''p1'') ! 1) = [RedactedGoal False]"
      "pv_hand (v_players (filterForPlayer viewStateA ''p1'') ! 0)
       = [\<lparr>view_id = Some ''b1'', view_type = ''resource'', view_color = ''Blue''\<rparr>]"
      "pv_goalCards (v_players (filterForPlayer viewStateA ''p1'') ! 0) = [FullGoal (blueGoal ''g1'')]"
    by (simp_all add: filterForPlayer_def filterPlayer_def viewStateA_def exampleState_def
        mkPlayer_def mkCard_def blueGoal_def hiddenCard_def shownCard_def)
  have e: "filterForPlayer viewStateA ''p1'' = filterForPlayer viewStateB ''p1''"
    using C9_filtered_view [of "''p1''" viewStateA viewStateB, THEN conjunct2] h by (rule mp)
  show ?thesis using h d v e by (intro conjI) assumption+
qed

section \<open>Cash never goes negative\<close>

lemma find_updatePlayer:
  assumes "\<And>p. player_id (f p) = player_id p"
  shows "find (\<lambda>p. player_id p = q) (updatePlayer pid f ps)
       = (if q = pid then map_option f (find (\<lambda>p. player_id p = q) ps)
          else find (\<lambda>p. player_id p = q) ps)"
  using assms by (induction ps) auto

lemma list_all_updatePlayer:
  assumes "list_all P ps" and "\<And>p. P p \<Longrightarrow> P (f p)"
  shows "list_all P (updatePlayer pid f ps)"
  using assms by (induction ps) auto

lemma map_cash_updatePlayer:
  assumes "\<And>p. cash (f p) = cash p"
  shows "map cash (updatePlayer pid f ps) = map cash ps"
  using assms by (induction ps) auto

lemma cash_nonneg_map: "cash_nonneg s \<longleftrightarrow> (\<forall>c \<in> set (map cash (players s)). 0 \<le> c)"
  by (auto simp: cash_nonneg_def list_all_iff)

lemma cash_nonneg_cong:
  "map cash (players t) = map cash (players s) \<Longrightarrow> cash_nonneg t = cash_nonneg s"
  by (simp add: cash_nonneg_map)

lemma adjustCash_nonneg: "0 \<le> cash (adjustCash amt p)"
  by (simp add: adjustCash_def Let_def)

lemma adjustCash_max: "adjustCash amt p = p\<lparr>cash := max 0 (cash p + amt)\<rparr>"
  by (simp add: adjustCash_def Let_def max_def)

lemma adjustCash_id [simp]: "player_id (adjustCash amt p) = player_id p"
  by (simp add: adjustCash_def Let_def)

lemma cash_nonneg_adjustPlayerCash:
  "cash_nonneg s \<Longrightarrow> cash_nonneg (adjustPlayerCash s pid amt)"
  unfolding cash_nonneg_def adjustPlayerCash_def
  by (simp add: list_all_updatePlayer adjustCash_nonneg)

lemma map_cash_addCardToHand [simp]:
  "map cash (players (addCardToHand s pid c)) = map cash (players s)"
  by (simp add: addCardToHand_def map_cash_updatePlayer)



lemma players_moveToNextCard [simp]: "players (moveToNextCard s) = players s"
  by (simp add: moveToNextCard_def Let_def split: option.splits)

lemma cash_nonneg_addCardToHand [simp]: "cash_nonneg (addCardToHand s pid c) = cash_nonneg s"
  by (rule cash_nonneg_cong) simp

lemma cash_nonneg_moveToNextCard [simp]: "cash_nonneg (moveToNextCard s) = cash_nonneg s"
  by (simp add: cash_nonneg_def)

lemma cash_nonneg_anomalies [simp]: "cash_nonneg (s\<lparr>anomalies := x\<rparr>) = cash_nonneg s"
  by (simp add: cash_nonneg_def)












lemma getPlayer_adjustPlayerCash:
  "getPlayer (adjustPlayerCash s pid amt) q
     = (if q = pid then map_option (adjustCash amt) (getPlayer s q) else getPlayer s q)"
  by (simp add: getPlayer_def adjustPlayerCash_def find_updatePlayer)




section \<open>The auction of one card\<close>




lemma getPlayer_in_players: "getPlayer s pid = Some p \<Longrightarrow> p \<in> set (players s)"
  by (auto simp: getPlayer_def find_Some_iff)

lemma getPlayer_cong: "players t = players s \<Longrightarrow> getPlayer t q = getPlayer s q"
  by (simp add: getPlayer_def)

lemma getPlayer_exists:
  "q \<in> set (map player_id (players s)) \<Longrightarrow> \<exists>p. getPlayer s q = Some p"
proof -
  assume "q \<in> set (map player_id (players s))"
  then have "\<exists>p \<in> set (players s). player_id p = q" by auto
  then have "find (\<lambda>p. player_id p = q) (players s) \<noteq> None"
    by (auto simp: find_None_iff)
  then show ?thesis by (simp add: getPlayer_def)
qed

lemma getPlayer_id: "getPlayer s q = Some p \<Longrightarrow> q \<in> set (map player_id (players s))"
  by (auto simp: getPlayer_def find_Some_iff)


lemma set_size_one:
  assumes "set_size xs = 1" and "set_first xs = Some w"
  shows "set xs = {w}"
proof -
  from assms(2) have "w \<in> set xs" by (cases xs) (simp_all add: set_first_def)
  moreover from assms(1) have "card (set xs) = 1"
    by (simp add: set_size_def length_remdups_card_conv)
  ultimately show ?thesis by (metis card_1_singletonE singletonD)
qed

lemma set_first_in: "set_first xs = Some w \<Longrightarrow> w \<in> set xs"
  by (cases xs) (simp_all add: set_first_def)

lemma set_size_pos_first: "0 < set_size xs \<Longrightarrow> \<exists>w. set_first xs = Some w"
  by (cases xs) (simp_all add: set_first_def set_size_def)

lemma players_advance [simp]: "players (advanceToNextActiveBidder s) = players s"
  by (simp add: advanceToNextActiveBidder_def Let_def split: option.splits)

lemma measure_advance [simp]:
  "auctionMeasure (advanceToNextActiveBidder s) = auctionMeasure s"
  by (simp add: advanceToNextActiveBidder_def auctionMeasure_def maxCash_def Let_def
      split: option.splits)

lemma index_advance [simp]: "cardIndexOf (advanceToNextActiveBidder s) = cardIndexOf s"
  by (simp add: advanceToNextActiveBidder_def cardIndexOf_def Let_def split: option.splits)


lemma index_moveToNextCard:
  "cardIndexOf (moveToNextCard s) = map_option Suc (cardIndexOf s)"
  by (simp add: moveToNextCard_def cardIndexOf_def Let_def split: option.splits)

lemma resourceDeck_moveToNextCard [simp]: "resourceDeck (moveToNextCard s) = resourceDeck s"
  by (simp add: moveToNextCard_def Let_def split: option.splits)

lemma auction_adjustPlayerCash [simp]: "auction (adjustPlayerCash s pid amt) = auction s"
  by (simp add: adjustPlayerCash_def)

lemma auction_addCardToHand [simp]: "auction (addCardToHand s pid c) = auction s"
  by (simp add: addCardToHand_def)

lemma index_adjustPlayerCash [simp]: "cardIndexOf (adjustPlayerCash s pid amt) = cardIndexOf s"
  by (simp add: cardIndexOf_def)

lemma index_addCardToHand [simp]: "cardIndexOf (addCardToHand s pid c) = cardIndexOf s"
  by (simp add: cardIndexOf_def)

lemma index_anomalies [simp]: "cardIndexOf (s\<lparr>anomalies := x\<rparr>) = cardIndexOf s"
  by (simp add: cardIndexOf_def)

lemma getPlayer_addCardToHand:
  "getPlayer (addCardToHand s pid c) q
     = (if q = pid then map_option (\<lambda>p. p\<lparr>hand := hand p @ [c]\<rparr>) (getPlayer s q)
        else getPlayer s q)"
  by (simp add: getPlayer_def addCardToHand_def find_updatePlayer)

lemma getPlayer_moveToNextCard [simp]: "getPlayer (moveToNextCard s) q = getPlayer s q"
  by (rule getPlayer_cong) simp

lemma getPlayer_anomalies [simp]: "getPlayer (s\<lparr>anomalies := x\<rparr>) q = getPlayer s q"
  by (simp add: getPlayer_def)



lemma wholeNumber_of_int [simp]: "wholeNumber (Some (of_int n)) = Some n"
  by (simp add: wholeNumber_def)


text \<open>
  What a validated pass does, by the three branches of \<open>pass\<close>: \<open>s1\<close> is the state with the
  passer removed, \<open>s2\<close> the state after the rotation.
\<close>

lemma pass_unfold:
  assumes "auction s = Some a"
  shows "pass s pid =
      (if set_size (removeAll pid (activeBidders a)) = 1
       then completeCurrentCardAuction
              (s\<lparr>auction := Some (a\<lparr>activeBidders := removeAll pid (activeBidders a)\<rparr>)\<rparr>)
       else if set_size (removeAll pid (activeBidders a)) = 0
       then moveToNextCard
              (case currentCard a of
                 None \<Rightarrow> s\<lparr>auction := Some (a\<lparr>activeBidders := removeAll pid (activeBidders a)\<rparr>),
                           anomalies := anomalies s @ [NullOnDiscardPile]\<rparr>
               | Some c \<Rightarrow> s\<lparr>auction := Some (a\<lparr>activeBidders := removeAll pid (activeBidders a)\<rparr>),
                             resourceDeck := discard (resourceDeck s) [c]\<rparr>)
       else (case auction (advanceToNextActiveBidder
                    (s\<lparr>auction := Some (a\<lparr>activeBidders := removeAll pid (activeBidders a)\<rparr>)\<rparr>)) of
               None \<Rightarrow> advanceToNextActiveBidder
                    (s\<lparr>auction := Some (a\<lparr>activeBidders := removeAll pid (activeBidders a)\<rparr>)\<rparr>)
             | Some a2 \<Rightarrow>
                 if lastRaiserIndex a2 \<noteq> None \<and> Some (currentPlayerIndex a2) = lastRaiserIndex a2
                    \<and> currentHighBidder a2 \<noteq> None
                 then completeCurrentCardAuction (advanceToNextActiveBidder
                    (s\<lparr>auction := Some (a\<lparr>activeBidders := removeAll pid (activeBidders a)\<rparr>)\<rparr>))
                 else advanceToNextActiveBidder
                    (s\<lparr>auction := Some (a\<lparr>activeBidders := removeAll pid (activeBidders a)\<rparr>)\<rparr>)))"
  unfolding pass_def Let_def by (simp add: assms split: option.splits)


lemma map_id_updatePlayer:
  assumes "\<And>p. player_id (f p) = player_id p"
  shows "map player_id (updatePlayer pid f ps) = map player_id ps"
  using assms by (induction ps) auto

lemma ids_adjustPlayerCash [simp]:
  "map player_id (players (adjustPlayerCash s pid amt)) = map player_id (players s)"
  by (simp add: adjustPlayerCash_def map_id_updatePlayer)

lemma ids_addCardToHand [simp]:
  "map player_id (players (addCardToHand s pid c)) = map player_id (players s)"
  by (simp add: addCardToHand_def map_id_updatePlayer)

lemma anomalies_moveToNextCard [simp]: "anomalies (moveToNextCard s) = anomalies s"
  by (simp add: moveToNextCard_def Let_def split: option.splits)

lemma anomalies_adjustPlayerCash [simp]: "anomalies (adjustPlayerCash s pid amt) = anomalies s"
  by (simp add: adjustPlayerCash_def)

lemma anomalies_addCardToHand [simp]: "anomalies (addCardToHand s pid c) = anomalies s"
  by (simp add: addCardToHand_def)

lemma resourceDeck_adjustPlayerCash [simp]:
  "resourceDeck (adjustPlayerCash s pid amt) = resourceDeck s"
  by (simp add: adjustPlayerCash_def)

lemma resourceDeck_addCardToHand [simp]:
  "resourceDeck (addCardToHand s pid c) = resourceDeck s"
  by (simp add: addCardToHand_def)

lemma advance_eq:
  assumes "auction s = Some a"
  shows "advanceToNextActiveBidder s
       = s\<lparr>auction := Some (a\<lparr>currentPlayerIndex :=
               nextBidderIndex s (activeBidders a) (currentPlayerIndex a)\<rparr>)\<rparr>"
proof -
  have "s\<lparr>auction := auction s\<rparr> = s" by simp
  then have "s\<lparr>auction := Some a\<rparr> = s" by (simp add: assms)
  then show ?thesis
    by (simp add: advanceToNextActiveBidder_def nextBidderIndex_def Let_def assms
        split: option.splits)
qed

lemma bidBacked_advance [simp]: "bidBacked (advanceToNextActiveBidder s) = bidBacked s"
proof (cases "auction s")
  case None
  then show ?thesis by (simp add: advanceToNextActiveBidder_def)
next
  case (Some a)
  show ?thesis
    unfolding advance_eq [OF Some]
    by (simp add: bidBacked_def Some getPlayer_def split: option.splits)
qed

lemma wholeDollarAuction_advance [simp]:
  "wholeDollarAuction (advanceToNextActiveBidder s) = wholeDollarAuction s"
proof -
  have "anomalies (advanceToNextActiveBidder s) = anomalies s"
    by (simp add: advanceToNextActiveBidder_def Let_def split: option.splits)
  moreover have "cash_nonneg (advanceToNextActiveBidder s) = cash_nonneg s"
    by (rule cash_nonneg_cong) simp
  ultimately show ?thesis by (simp add: wholeDollarAuction_def)
qed

lemma moveToNextCard_backed:
  assumes "auction s = Some a"
    and "set (activeBidders a) \<subseteq> set (map player_id (players s))"
  shows "bidBacked (moveToNextCard s)"
  using assms by (simp add: moveToNextCard_def bidBacked_def Let_def)

text \<open>
  Closing a card in a state of a whole-dollar auction: the winner is a player, the
  payment is the current bid, and the state is again one of a whole-dollar auction.
\<close>

lemma complete_sound:
  assumes inv: "wholeDollarAuction s" and a: "auction s = Some a"
    and op: "currentCardIndex a < length (cardsToAuction a)"
    and w: "auctionWinner a = Some w"
  shows "\<exists>p n. getPlayer s w = Some p \<and> currentBid a = Some (of_int n)
           \<and> (currentHighBidder a = None \<longrightarrow> n = 0) \<and> n \<le> cash p
           \<and> (case currentHighBidder a of
                 Some h \<Rightarrow> w = h
               | None \<Rightarrow> set_first (activeBidders a) = Some w)
           \<and> completeCurrentCardAuction s
               = moveToNextCard (addCardToHand (adjustPlayerCash s w (- n)) w
                    (cardsToAuction a ! currentCardIndex a))"
proof -
  from inv a op have sub: "set (activeBidders a) \<subseteq> set (map player_id (players s))"
    and cc: "currentCard a = Some (cardsToAuction a ! currentCardIndex a)"
    and cn: "cash_nonneg s"
    by (simp_all add: wholeDollarAuction_def bidBacked_def)
  show ?thesis
  proof (cases "currentHighBidder a")
    case None
    with w have f: "set_first (activeBidders a) = Some w" by (simp add: auctionWinner_def)
    from inv a op None have b0: "currentBid a = Some (of_int 0)"
      by (simp add: wholeDollarAuction_def bidBacked_def)
    from f sub have "w \<in> set (map player_id (players s))" using set_first_in by blast
    then obtain p where p: "getPlayer s w = Some p" using getPlayer_exists by blast
    from cn getPlayer_in_players [OF p] have c0: "0 \<le> cash p"
      by (simp add: cash_nonneg_def list_all_iff)
    have "completeCurrentCardAuction s
        = moveToNextCard (addCardToHand (adjustPlayerCash s w (- 0)) w
                    (cardsToAuction a ! currentCardIndex a))"
      unfolding completeCurrentCardAuction_def Let_def
      by (simp add: a w p b0 cc del: of_int_0)
    with p b0 c0 None f show ?thesis by (intro exI [of _ p] exI [of _ 0]) simp
  next
    case (Some h)
    from inv a op Some obtain p n where h: "h \<noteq> []" and p: "getPlayer s h = Some p"
      and b: "currentBid a = Some (of_int n)" and le: "n \<le> cash p"
      by (auto simp: wholeDollarAuction_def bidBacked_def)
    from w Some h have wh: "w = h" by (simp add: auctionWinner_def)
    have "completeCurrentCardAuction s
        = moveToNextCard (addCardToHand (adjustPlayerCash s w (- n)) w
                    (cardsToAuction a ! currentCardIndex a))"
      unfolding completeCurrentCardAuction_def Let_def
      using p by (simp add: a w wh b cc)
    with p b le Some wh show ?thesis by (intro exI [of _ p] exI [of _ n]) simp
  qed
qed

lemma closing_effects:
  fixes c :: card
  assumes p: "getPlayer s w = Some p" and le: "n \<le> cash p" and a: "auction s = Some a"
  defines "t \<equiv> moveToNextCard (addCardToHand (adjustPlayerCash s w (- n)) w c)"
  shows "getPlayer t q = (if q = w then Some (p\<lparr>cash := cash p - n, hand := hand p @ [c]\<rparr>)
                          else getPlayer s q)"
    and "cardIndexOf t = Some (Suc (currentCardIndex a))"
    and "anomalies t = anomalies s"
    and "resourceDeck t = resourceDeck s"
    and "map player_id (players t) = map player_id (players s)"
    and "cash_nonneg s \<Longrightarrow> cash_nonneg t"
    and "set (activeBidders a) \<subseteq> set (map player_id (players s)) \<Longrightarrow> bidBacked t"
proof -
  have "adjustCash (- n) p = p\<lparr>cash := cash p - n\<rparr>"
    using le by (simp add: adjustCash_max max_def)
  then show "getPlayer t q = (if q = w then Some (p\<lparr>cash := cash p - n, hand := hand p @ [c]\<rparr>)
                          else getPlayer s q)"
    using p by (simp add: t_def getPlayer_addCardToHand getPlayer_adjustPlayerCash)
  show "cardIndexOf t = Some (Suc (currentCardIndex a))"
    by (simp add: t_def index_moveToNextCard) (simp add: cardIndexOf_def a)
  show "anomalies t = anomalies s" by (simp add: t_def)
  show "resourceDeck t = resourceDeck s" by (simp add: t_def)
  show "map player_id (players t) = map player_id (players s)" by (simp add: t_def)
  show "cash_nonneg t" if "cash_nonneg s"
    using that by (simp add: t_def cash_nonneg_adjustPlayerCash)
  show "bidBacked t" if "set (activeBidders a) \<subseteq> set (map player_id (players s))"
    unfolding t_def
    by (rule moveToNextCard_backed [of _ a]) (use a that in simp_all)
qed

lemma complete_keeps_sound:
  assumes inv: "wholeDollarAuction s" and a: "auction s = Some a"
    and op: "currentCardIndex a < length (cardsToAuction a)"
    and w: "auctionWinner a = Some w"
  shows "wholeDollarAuction (completeCurrentCardAuction s)"
proof -
  from complete_sound [OF inv a op w] obtain p n where p: "getPlayer s w = Some p"
    and le: "n \<le> cash p"
    and c: "completeCurrentCardAuction s
               = moveToNextCard (addCardToHand (adjustPlayerCash s w (- n)) w
                    (cardsToAuction a ! currentCardIndex a))"
    by blast
  from inv a have sub: "set (activeBidders a) \<subseteq> set (map player_id (players s))"
    by (simp add: wholeDollarAuction_def bidBacked_def)
  note e = closing_effects [OF p le a, of "cardsToAuction a ! currentCardIndex a"]
  from inv have "cash_nonneg s" "[] \<notin> set (map player_id (players s))" "anomalies s = []"
    by (simp_all add: wholeDollarAuction_def)
  then show ?thesis
    unfolding c wholeDollarAuction_def
    using e(3) e(5) e(6) e(7) [OF sub] by simp
qed

text \<open>The pass, by its branches, with the rotation written out.\<close>

lemma pass_branches:
  assumes a: "auction s = Some a"
  shows "pass s pid =
      (if set_size (removeAll pid (activeBidders a)) = 1
       then completeCurrentCardAuction
              (s\<lparr>auction := Some (a\<lparr>activeBidders := removeAll pid (activeBidders a)\<rparr>)\<rparr>)
       else if set_size (removeAll pid (activeBidders a)) = 0
       then moveToNextCard
              (case currentCard a of
                 None \<Rightarrow> s\<lparr>auction := Some (a\<lparr>activeBidders := removeAll pid (activeBidders a)\<rparr>),
                           anomalies := anomalies s @ [NullOnDiscardPile]\<rparr>
               | Some c \<Rightarrow> s\<lparr>auction := Some (a\<lparr>activeBidders := removeAll pid (activeBidders a)\<rparr>),
                             resourceDeck := discard (resourceDeck s) [c]\<rparr>)
       else if lastRaiserIndex a = Some (nextBidderIndex s (removeAll pid (activeBidders a))
                                           (currentPlayerIndex a))
               \<and> currentHighBidder a \<noteq> None
       then completeCurrentCardAuction
              (s\<lparr>auction := Some (a\<lparr>activeBidders := removeAll pid (activeBidders a),
                   currentPlayerIndex := nextBidderIndex s (removeAll pid (activeBidders a))
                                           (currentPlayerIndex a)\<rparr>)\<rparr>)
       else s\<lparr>auction := Some (a\<lparr>activeBidders := removeAll pid (activeBidders a),
                   currentPlayerIndex := nextBidderIndex s (removeAll pid (activeBidders a))
                                           (currentPlayerIndex a)\<rparr>)\<rparr>)"
proof -
  define a1 where "a1 = a\<lparr>activeBidders := removeAll pid (activeBidders a)\<rparr>"
  define s1 where "s1 = s\<lparr>auction := Some a1\<rparr>"
  have s1: "auction s1 = Some a1" by (simp add: s1_def)
  have n: "nextBidderIndex s1 (activeBidders a1) (currentPlayerIndex a1)
      = nextBidderIndex s (removeAll pid (activeBidders a)) (currentPlayerIndex a)"
    by (simp add: nextBidderIndex_def s1_def a1_def)
  have adv: "advanceToNextActiveBidder s1
      = s\<lparr>auction := Some (a\<lparr>activeBidders := removeAll pid (activeBidders a),
                   currentPlayerIndex := nextBidderIndex s (removeAll pid (activeBidders a))
                                           (currentPlayerIndex a)\<rparr>)\<rparr>"
    unfolding advance_eq [OF s1] n by (simp add: s1_def a1_def)
  show ?thesis
    unfolding pass_unfold [OF a] a1_def [symmetric] s1_def [symmetric]
    unfolding adv
    by (auto simp: a1_def s1_def)
qed

lemma wholeDollarAuction_removed:
  assumes "wholeDollarAuction s" and "auction s = Some a"
  shows "wholeDollarAuction (s\<lparr>auction := Some (a\<lparr>activeBidders := removeAll pid (activeBidders a),
            currentPlayerIndex := i\<rparr>)\<rparr>)"
  using assms
  by (auto simp: wholeDollarAuction_def bidBacked_def cash_nonneg_def getPlayer_def
      split: option.splits)

lemma wholeDollarAuction_removed':
  assumes "wholeDollarAuction s" and "auction s = Some a"
  shows "wholeDollarAuction (s\<lparr>auction := Some (a\<lparr>activeBidders := removeAll pid (activeBidders a)\<rparr>)\<rparr>)"
  using wholeDollarAuction_removed [OF assms, where pid = pid and i = "currentPlayerIndex a"]
  by simp

lemma auction_reachable_sound: "auction_reachable s \<Longrightarrow> wholeDollarAuction s"
proof (induction rule: auction_reachable.induct)
  case (entered s)
  obtain cards d where dr: "draw (resourceDeck s) (length (players s) + 2) = (cards, d)"
    by (cases "draw (resourceDeck s) (length (players s) + 2)")
  have pl: "players (cleanupPhase s (currentPhase s)) = players s"
    and an: "anomalies (cleanupPhase s (currentPhase s)) = anomalies s"
    and rd: "resourceDeck (cleanupPhase s (currentPhase s)) = resourceDeck s"
    by (simp_all add: cleanupPhase_def split: option.splits phase.splits)
  show ?case
    using entered dr
    by (simp add: wholeDollarAuction_def transitionToPhase_def initializePhase_def
        initializeAuction_def Let_def pl an rd cash_nonneg_def bidBacked_def nth_opt_def)
next
  case (bid s pid n)
  from bid(3) obtain p a where p: "getPlayer s pid = Some p" and a: "auction s = Some a"
    and act: "pid \<in> set (activeBidders a)" and le: "n \<le> cash p"
    by (auto simp: validateBid_def num_lt_def split: if_splits option.splits)
  from bid.IH have inv: "cash_nonneg s" "[] \<notin> set (map player_id (players s))"
      "anomalies s = []" "bidBacked s"
    by (simp_all add: wholeDollarAuction_def)
  from getPlayer_id [OF p] inv(2) have ne: "pid \<noteq> []" by blast
  have "wholeDollarAuction (s\<lparr>auction := Some (a\<lparr>currentBid := Some (of_int n),
          currentHighBidder := Some pid, lastRaiserIndex := Some (currentPlayerIndex a)\<rparr>)\<rparr>)"
    using inv a p le ne
    by (auto simp: wholeDollarAuction_def bidBacked_def cash_nonneg_def getPlayer_def)
  then show ?case by (simp add: placeBid_def a)
next
  case (passed s pid)
  from passed(3) obtain a where a: "auction s = Some a"
    by (auto simp: validatePass_def split: if_splits option.splits)
  from passed(2) a have op: "currentCardIndex a < length (cardsToAuction a)"
    by (simp add: isAuctionComplete_def)
  let ?rem = "removeAll pid (activeBidders a)"
  let ?nx = "nextBidderIndex s ?rem (currentPlayerIndex a)"
  let ?s1 = "s\<lparr>auction := Some (a\<lparr>activeBidders := ?rem\<rparr>)\<rparr>"
  let ?s2 = "s\<lparr>auction := Some (a\<lparr>activeBidders := ?rem, currentPlayerIndex := ?nx\<rparr>)\<rparr>"
  have i1: "wholeDollarAuction ?s1" by (rule wholeDollarAuction_removed' [OF passed.IH a])
  have i2: "wholeDollarAuction ?s2" by (rule wholeDollarAuction_removed [OF passed.IH a])
  from passed.IH a op have cc: "currentCard a = Some (cardsToAuction a ! currentCardIndex a)"
    by (simp add: wholeDollarAuction_def bidBacked_def)
  show ?case
  proof (cases "set_size ?rem = 1")
    case True
    then obtain w where "set_first ?rem = Some w" using set_size_pos_first [of ?rem] by auto
    then have "auctionWinner (a\<lparr>activeBidders := ?rem\<rparr>) \<noteq> None"
      using i1 op by (auto simp: auctionWinner_def wholeDollarAuction_def bidBacked_def
          split: option.splits)
    then obtain w' where w': "auctionWinner (a\<lparr>activeBidders := ?rem\<rparr>) = Some w'" by auto
    have "wholeDollarAuction (completeCurrentCardAuction ?s1)"
      by (rule complete_keeps_sound [OF i1 _ _ w']) (simp_all add: op)
    with True show ?thesis by (simp add: pass_branches [OF a])
  next
    case n1: False
    show ?thesis
    proof (cases "set_size ?rem = 0")
      case True
      let ?t = "s\<lparr>auction := Some (a\<lparr>activeBidders := ?rem\<rparr>),
                  resourceDeck := discard (resourceDeck s) [cardsToAuction a ! currentCardIndex a]\<rparr>"
      have "bidBacked (moveToNextCard ?t)"
        using i1 by (intro moveToNextCard_backed [of _ "a\<lparr>activeBidders := ?rem\<rparr>"])
          (simp_all add: wholeDollarAuction_def bidBacked_def)
      moreover have "cash_nonneg (moveToNextCard ?t)" "anomalies (moveToNextCard ?t) = []"
        "[] \<notin> set (map player_id (players (moveToNextCard ?t)))"
        using passed.IH by (simp_all add: wholeDollarAuction_def cash_nonneg_def)
      ultimately have "wholeDollarAuction (moveToNextCard ?t)"
        by (simp add: wholeDollarAuction_def)
      with True n1 show ?thesis by (simp add: pass_branches [OF a] cc)
    next
      case n0: False
      show ?thesis
      proof (cases "lastRaiserIndex a = Some ?nx \<and> currentHighBidder a \<noteq> None")
        case True
        then obtain h where h: "currentHighBidder a = Some h" by auto
        with passed.IH a op have "h \<noteq> []"
          by (auto simp: wholeDollarAuction_def bidBacked_def)
        with h have w': "auctionWinner (a\<lparr>activeBidders := ?rem, currentPlayerIndex := ?nx\<rparr>) = Some h"
          by (simp add: auctionWinner_def)
        have "wholeDollarAuction (completeCurrentCardAuction ?s2)"
          by (rule complete_keeps_sound [OF i2 _ _ w']) (simp_all add: op)
        with True n1 n0 show ?thesis by (simp add: pass_branches [OF a])
      next
        case False
        then have "pass s pid = ?s2"
          using n1 n0 unfolding pass_branches [OF a] by (simp only: if_False)
        with i2 show ?thesis by simp
      qed
    qed
  qed
qed

lemma maxCash_auction [simp]: "maxCash (s\<lparr>auction := x\<rparr>) = maxCash s"
  by (simp add: maxCash_def)




text \<open>A pass in a state of a whole-dollar auction, by its outcome.\<close>

lemma closing_sound:
  assumes inv: "wholeDollarAuction s" and a: "auction s = Some a"
    and op: "currentCardIndex a < length (cardsToAuction a)"
    and cl: "currentHighBidder a \<noteq> None \<or> set_size (activeBidders a) = 1"
  shows "\<exists>w p n. (case currentHighBidder a of
                     Some h \<Rightarrow> w = h
                   | None \<Rightarrow> set (activeBidders a) = {w})
           \<and> currentBid a = Some (of_int n) \<and> (currentHighBidder a = None \<longrightarrow> n = 0)
           \<and> n \<le> cash p \<and> getPlayer s w = Some p
           \<and> getPlayer (completeCurrentCardAuction s) w
               = Some (p\<lparr>cash := cash p - n,
                         hand := hand p @ [cardsToAuction a ! currentCardIndex a]\<rparr>)
           \<and> (\<forall>q. q \<noteq> w \<longrightarrow> getPlayer (completeCurrentCardAuction s) q = getPlayer s q)
           \<and> cardIndexOf (completeCurrentCardAuction s) = Some (Suc (currentCardIndex a))
           \<and> anomalies (completeCurrentCardAuction s) = []
           \<and> resourceDeck (completeCurrentCardAuction s) = resourceDeck s"
proof -
  have "\<exists>w. auctionWinner a = Some w"
  proof (cases "currentHighBidder a")
    case None
    with cl have "0 < set_size (activeBidders a)" by simp
    with None show ?thesis using set_size_pos_first [of "activeBidders a"]
      by (simp add: auctionWinner_def)
  next
    case (Some h)
    with inv a op have "h \<noteq> []" by (auto simp: wholeDollarAuction_def bidBacked_def)
    with Some show ?thesis by (simp add: auctionWinner_def)
  qed
  then obtain w where w: "auctionWinner a = Some w" by blast
  from complete_sound [OF inv a op w] obtain p n where p: "getPlayer s w = Some p"
    and b: "currentBid a = Some (of_int n)" and z: "currentHighBidder a = None \<longrightarrow> n = 0"
    and le: "n \<le> cash p"
    and who: "(case currentHighBidder a of
                 Some h \<Rightarrow> w = h
               | None \<Rightarrow> set_first (activeBidders a) = Some w)"
    and c: "completeCurrentCardAuction s
               = moveToNextCard (addCardToHand (adjustPlayerCash s w (- n)) w
                    (cardsToAuction a ! currentCardIndex a))"
    by (elim exE conjE) (rule that)
  note e = closing_effects [OF p le a, of "cardsToAuction a ! currentCardIndex a", folded c]
  have who': "(case currentHighBidder a of
                     Some h \<Rightarrow> w = h
                   | None \<Rightarrow> set (activeBidders a) = {w})"
  proof (cases "currentHighBidder a")
    case None
    with who cl have "set_first (activeBidders a) = Some w" "set_size (activeBidders a) = 1"
      by simp_all
    then have "set (activeBidders a) = {w}" using set_size_one by blast
    with None show ?thesis by simp
  next
    case (Some h)
    with who show ?thesis by simp
  qed
  from inv have an: "anomalies s = []" by (simp add: wholeDollarAuction_def)
  have g: "getPlayer (completeCurrentCardAuction s) w
               = Some (p\<lparr>cash := cash p - n,
                         hand := hand p @ [cardsToAuction a ! currentCardIndex a]\<rparr>)"
    using e(1) [of w] by simp
  have o: "\<forall>q. q \<noteq> w \<longrightarrow> getPlayer (completeCurrentCardAuction s) q = getPlayer s q"
    using e(1) by simp
  have an': "anomalies (completeCurrentCardAuction s) = []" using e(3) an by simp
  show ?thesis
    using who' b z le p g o e(2) an' e(4)
    by (intro exI [of _ w] exI [of _ p] exI [of _ n] conjI) assumption+
qed

lemma pass_closing:
  assumes inv: "wholeDollarAuction s" and a: "auction s = Some a"
    and op: "currentCardIndex a < length (cardsToAuction a)"
    and nz: "set_size (removeAll pid (activeBidders a)) \<noteq> 0"
    and cl: "set_size (removeAll pid (activeBidders a)) = 1
             \<or> (lastRaiserIndex a = Some (nextBidderIndex s (removeAll pid (activeBidders a))
                                            (currentPlayerIndex a))
                \<and> currentHighBidder a \<noteq> None)"
  shows "\<exists>w p n. (case currentHighBidder a of
                     Some h \<Rightarrow> w = h
                   | None \<Rightarrow> set (removeAll pid (activeBidders a)) = {w})
           \<and> currentBid a = Some (of_int n) \<and> (currentHighBidder a = None \<longrightarrow> n = 0)
           \<and> n \<le> cash p \<and> getPlayer s w = Some p
           \<and> getPlayer (pass s pid) w
               = Some (p\<lparr>cash := cash p - n,
                         hand := hand p @ [cardsToAuction a ! currentCardIndex a]\<rparr>)
           \<and> (\<forall>q. q \<noteq> w \<longrightarrow> getPlayer (pass s pid) q = getPlayer s q)
           \<and> cardIndexOf (pass s pid) = Some (Suc (currentCardIndex a))
           \<and> anomalies (pass s pid) = []
           \<and> resourceDeck (pass s pid) = resourceDeck s"
proof -
  let ?rem = "removeAll pid (activeBidders a)"
  let ?nx = "nextBidderIndex s ?rem (currentPlayerIndex a)"
  define i where "i = (if set_size ?rem = 1 then currentPlayerIndex a else ?nx)"
  define a' where "a' = a\<lparr>activeBidders := ?rem, currentPlayerIndex := i\<rparr>"
  define s' where "s' = s\<lparr>auction := Some a'\<rparr>"
  have p: "pass s pid = completeCurrentCardAuction s'"
  proof (cases "set_size ?rem = 1")
    case True
    then show ?thesis by (simp add: pass_branches [OF a] s'_def a'_def i_def)
  next
    case False
    with nz cl show ?thesis by (simp add: pass_branches [OF a] s'_def a'_def i_def)
  qed
  have inv': "wholeDollarAuction s'"
    unfolding s'_def a'_def by (rule wholeDollarAuction_removed [OF inv a])
  have f: "auction s' = Some a'" "currentCardIndex a' = currentCardIndex a"
    "cardsToAuction a' = cardsToAuction a" "currentHighBidder a' = currentHighBidder a"
    "activeBidders a' = ?rem" "currentBid a' = currentBid a"
    "resourceDeck s' = resourceDeck s"
    by (simp_all add: s'_def a'_def)
  have g: "getPlayer s' q = getPlayer s q" for q by (simp add: s'_def getPlayer_def)
  have op': "currentCardIndex a' < length (cardsToAuction a')" using op f by simp
  have cl': "currentHighBidder a' \<noteq> None \<or> set_size (activeBidders a') = 1"
    using cl f by auto
  show ?thesis
    using closing_sound [OF inv' f(1) op' cl']
    unfolding p f g .
qed




section \<open>The example auction, evaluated\<close>

lemma exampleState_sel [simp]:
  "players (exampleState ps ph) = ps"
  "turnOrder (exampleState ps ph) = map player_id ps"
  "currentPhase (exampleState ps ph) = Some ph"
  "dealerIndex (exampleState ps ph) = 0"
  "auction (exampleState ps ph) = None"
  "trading (exampleState ps ph) = None"
  "goalResolution (exampleState ps ph) = None"
  "sell (exampleState ps ph) = None"
  "resourceDeck (exampleState ps ph) =
     \<lparr>drawPile = [mkCard ''r1'' ''Blue'', mkCard ''r2'' ''Orange'',
                   mkCard ''r3'' ''Yellow'', mkCard ''r4'' ''Purple'',
                   mkCard ''r5'' ''Blue'', mkCard ''r6'' ''Orange''],
      discardPile = []\<rparr>"
  "stockPrices (exampleState ps ph) =
     [''Blue'' \<mapsto> 4, ''Orange'' \<mapsto> 4, ''Yellow'' \<mapsto> 4, ''Purple'' \<mapsto> 4]"
  "nonNumberPrices (exampleState ps ph) = []"
  "anomalies (exampleState ps ph) = []"
  by (simp_all add: exampleState_def)

lemma threePlayers_sel [simp]:
  "map player_id threePlayers = [''p1'', ''p2'', ''p3'']"
  "length threePlayers = 3"
  "map cash threePlayers = [5, 5, 5]"
  by (simp_all add: threePlayers_def mkPlayer_def)

lemma threePlayers_find [simp]:
  "find (\<lambda>p. player_id p = ''p1'') threePlayers = Some (mkPlayer ''p1'' [] [])"
  "find (\<lambda>p. player_id p = ''p2'') threePlayers = Some (mkPlayer ''p2'' [] [])"
  "find (\<lambda>p. player_id p = ''p3'') threePlayers = Some (mkPlayer ''p3'' [] [])"
  by (simp_all add: threePlayers_def mkPlayer_def)

lemma nextActiveBidder_pos:
  "0 < k \<Longrightarrow> nextActiveBidder order active n i k
     = (if i < length order \<and> order ! i \<in> set active then Some i
        else nextActiveBidder order active n ((i + 1) mod n) (k - 1))"
  by (cases k) simp_all


lemma auctionStart_sel [simp]:
  "players auctionStart = threePlayers"
  "turnOrder auctionStart = [''p1'', ''p2'', ''p3'']"
  "currentPhase auctionStart = Some AUCTION"
  "dealerIndex auctionStart = 0"
  "anomalies auctionStart = []"
  "auction auctionStart =
     Some \<lparr>cardsToAuction = [mkCard ''r1'' ''Blue'', mkCard ''r2'' ''Orange'',
                              mkCard ''r3'' ''Yellow'', mkCard ''r4'' ''Purple'',
                              mkCard ''r5'' ''Blue''],
           currentCardIndex = 0,
           currentCard = Some (mkCard ''r1'' ''Blue''),
           currentBid = Some 0,
           currentHighBidder = None,
           activeBidders = [''p1'', ''p2'', ''p3''],
           currentPlayerIndex = 0,
           lastRaiserIndex = None\<rparr>"
  by (simp_all add: auctionStart_def initializeAuction_def draw_def nth_opt_def Let_def)

lemma auctionStart_entered:
  "auctionStart = transitionToPhase (exampleState threePlayers AUCTION) AUCTION"
proof -
  have "(cleanupPhase (exampleState threePlayers AUCTION)
           (currentPhase (exampleState threePlayers AUCTION)))\<lparr>currentPhase := Some AUCTION\<rparr>
      = exampleState threePlayers AUCTION"
    by (simp add: cleanupPhase_def exampleState_def)
  then show ?thesis
    unfolding auctionStart_def transitionToPhase_def by (simp add: initializePhase_def)
qed

lemma bidPlaced_eval:
  "bidPlaced =
     auctionStart\<lparr>auction :=
       Some \<lparr>cardsToAuction = [mkCard ''r1'' ''Blue'', mkCard ''r2'' ''Orange'',
                                mkCard ''r3'' ''Yellow'', mkCard ''r4'' ''Purple'',
                                mkCard ''r5'' ''Blue''],
             currentCardIndex = 0,
             currentCard = Some (mkCard ''r1'' ''Blue''),
             currentBid = Some 2,
             currentHighBidder = Some ''p1'',
             activeBidders = [''p1'', ''p2'', ''p3''],
             currentPlayerIndex = 1,
             lastRaiserIndex = Some 0\<rparr>\<rparr>"
  by (simp add: bidPlaced_def placeBid_def advanceToNextActiveBidder_def nextActiveBidder_pos)

lemma afterBidAndPass_eval:
  "afterBidAndPass = auctionStart\<lparr>auction := Some bidAndPassAuction\<rparr>"
  unfolding afterBidAndPass_def bidPlaced_def [symmetric] bidPlaced_eval
  by (simp add: pass_def advanceToNextActiveBidder_def set_size_def
      bidAndPassAuction_def Let_def nextActiveBidder_pos)

lemma afterBidAndPass_sel [simp]:
  "players afterBidAndPass = threePlayers"
  "currentPhase afterBidAndPass = Some AUCTION"
  "auction afterBidAndPass = Some bidAndPassAuction"
  by (simp_all add: afterBidAndPass_eval)

lemma bidAndPassAuction_sel [simp]:
  "activeBidders bidAndPassAuction = [''p1'', ''p3'']"
  "currentHighBidder bidAndPassAuction = Some ''p1''"
  "currentBid bidAndPassAuction = Some 2"
  "currentCard bidAndPassAuction = Some (mkCard ''r1'' ''Blue'')"
  "currentCardIndex bidAndPassAuction = 0"
  "cardsToAuction bidAndPassAuction = [mkCard ''r1'' ''Blue'', mkCard ''r2'' ''Orange'',
       mkCard ''r3'' ''Yellow'', mkCard ''r4'' ''Purple'', mkCard ''r5'' ''Blue'']"
  by (simp_all add: bidAndPassAuction_def)

lemma example_validations:
  "validateBid auctionStart ''p1'' (Some 2) = Valid"
  "validatePass bidPlaced ''p2'' = Valid"
  "validatePass afterBidAndPass ''p1'' = Valid"
  "validatePass afterBidAndPass ''p3'' = Valid"
  "validatePass bidPlaced ''p3'' = Valid"
  unfolding bidPlaced_eval
  by (simp_all add: validateBid_def validatePass_def getPlayer_def mkPlayer_def
      num_le_def num_lt_def)

lemma example_reachable:
  "auction_reachable auctionStart"
  "auction_reachable bidPlaced"
  "auction_reachable afterBidAndPass"
proof -
  have c: "cash_nonneg (exampleState threePlayers AUCTION)"
    by (simp add: cash_nonneg_def threePlayers_def mkPlayer_def)
  show r0: "auction_reachable auctionStart"
    unfolding auctionStart_entered by (rule auction_reachable.entered [OF c]) simp_all
  have o0: "\<not> isAuctionComplete auctionStart" by (simp add: isAuctionComplete_def)
  have v: "validateBid auctionStart ''p1'' (Some (of_int 2)) = Valid"
    using example_validations(1) by simp
  have "auction_reachable (placeBid auctionStart ''p1'' (Some (of_int 2)))"
    by (rule auction_reachable.bid [OF r0 o0 v])
  then show r1: "auction_reachable bidPlaced" by (simp add: bidPlaced_def)
  have o1: "\<not> isAuctionComplete bidPlaced"
    unfolding bidPlaced_eval by (simp add: isAuctionComplete_def)
  have "auction_reachable (pass bidPlaced ''p2'')"
    by (rule auction_reachable.passed [OF r1 o1 example_validations(2)])
  then show "auction_reachable afterBidAndPass"
    by (simp add: afterBidAndPass_def bidPlaced_def)
qed

lemma two_is_of_int [simp]: "((2::real) = of_int n) = (n = 2)"
  by auto



text \<open>
  C2, as stated, lets the one remaining active bidder win also when the player who
  passed was the high bidder.  In the example auction p1 bids $2, p2 passes and then p1
  passes (validation only asks that p1 is still active): p3 is the one remaining bidder,
  but the card goes to p1, the high bidder, for $2, and p3 keeps an empty hand and $5.
\<close>

theorem C2_counterexample:
  "validateBid auctionStart ''p1'' (Some 2) = Valid
   \<and> validatePass (placeBid auctionStart ''p1'' (Some 2)) ''p2'' = Valid
   \<and> validatePass afterBidAndPass ''p1'' = Valid
   \<and> auction afterBidAndPass = Some bidAndPassAuction
   \<and> removeAll ''p1'' (activeBidders bidAndPassAuction) = [''p3'']
   \<and> getPlayer afterBidAndPass ''p3'' = Some (mkPlayer ''p3'' [] [])
   \<and> getPlayer (pass afterBidAndPass ''p1'') ''p3'' = Some (mkPlayer ''p3'' [] [])
   \<and> getPlayer (pass afterBidAndPass ''p1'') ''p1''
       = Some ((mkPlayer ''p1'' [] [])\<lparr>cash := 3, hand := [mkCard ''r1'' ''Blue'']\<rparr>)"
proof -
  have v2: "validatePass (placeBid auctionStart ''p1'' (Some 2)) ''p2'' = Valid"
    using example_validations(2) by (simp add: bidPlaced_def)
  have p: "pass afterBidAndPass ''p1''
      = moveToNextCard (addCardToHand (adjustPlayerCash
          (auctionStart\<lparr>auction := Some (bidAndPassAuction\<lparr>activeBidders := [''p3'']\<rparr>)\<rparr>)
          ''p1'' (- 2)) ''p1'' (mkCard ''r1'' ''Blue''))"
    unfolding afterBidAndPass_eval
    by (simp add: pass_def set_size_def completeCurrentCardAuction_def auctionWinner_def
        getPlayer_def Let_def wholeNumber_def)
  have g3: "getPlayer afterBidAndPass ''p3'' = Some (mkPlayer ''p3'' [] [])"
    by (simp add: getPlayer_def)
  have r3: "getPlayer (pass afterBidAndPass ''p1'') ''p3'' = Some (mkPlayer ''p3'' [] [])"
    unfolding p
    by (simp add: getPlayer_addCardToHand getPlayer_adjustPlayerCash) (simp add: getPlayer_def)
  have r1: "getPlayer (pass afterBidAndPass ''p1'') ''p1''
       = Some ((mkPlayer ''p1'' [] [])\<lparr>cash := 3, hand := [mkCard ''r1'' ''Blue'']\<rparr>)"
    unfolding p
    by (simp add: getPlayer_addCardToHand getPlayer_adjustPlayerCash adjustCash_max)
      (simp add: getPlayer_def mkPlayer_def)
  have x: "removeAll ''p1'' (activeBidders bidAndPassAuction) = [''p3'']" by simp
  show ?thesis
    using example_validations(1) v2 example_validations(3) afterBidAndPass_sel(3) x g3 r3 r1
    by (intro conjI) assumption+
qed

text \<open>
  C2, amended: in the states of a whole-dollar auction, on an open card with at least two
  active bidders, when a validated pass reduces the active bidders to exactly one, the
  card is won at once at the current bid by the current high bidder if there is one (also
  when that is the player who just passed), and otherwise, nobody having bid, by the one
  remaining active bidder at $0; the card is appended to the winner's hand, the winner's
  cash decreases by exactly the current bid, which the winner can pay, every other
  player is unchanged, and the auction moves to the next card index.
\<close>

theorem C2_pass_to_last_bidder:
  assumes "auction_reachable s"
    and "validatePass s pid = Valid"
    and "auction s = Some a"
    and "currentCardIndex a < length (cardsToAuction a)"
    and "2 \<le> set_size (activeBidders a)"
    and "set_size (removeAll pid (activeBidders a)) = 1"
  shows "\<exists>w p n. (case currentHighBidder a of
                     Some h \<Rightarrow> w = h
                   | None \<Rightarrow> set (removeAll pid (activeBidders a)) = {w})
           \<and> currentBid a = Some (of_int n) \<and> (currentHighBidder a = None \<longrightarrow> n = 0)
           \<and> n \<le> cash p \<and> getPlayer s w = Some p
           \<and> getPlayer (pass s pid) w
               = Some (p\<lparr>cash := cash p - n,
                         hand := hand p @ [cardsToAuction a ! currentCardIndex a]\<rparr>)
           \<and> (\<forall>q. q \<noteq> w \<longrightarrow> getPlayer (pass s pid) q = getPlayer s q)
           \<and> cardIndexOf (pass s pid) = Some (Suc (currentCardIndex a))"
proof -
  have inv: "wholeDollarAuction s" using assms(1) by (rule auction_reachable_sound)
  have nz: "set_size (removeAll pid (activeBidders a)) \<noteq> 0" using assms(6) by simp
  from pass_closing [OF inv assms(3) assms(4) nz disjI1, OF assms(6)] obtain w p n
    where who: "(case currentHighBidder a of
                     Some h \<Rightarrow> w = h
                   | None \<Rightarrow> set (removeAll pid (activeBidders a)) = {w})"
      and b: "currentBid a = Some (of_int n)" and z: "currentHighBidder a = None \<longrightarrow> n = 0"
      and le: "n \<le> cash p" and p: "getPlayer s w = Some p"
      and g: "getPlayer (pass s pid) w
               = Some (p\<lparr>cash := cash p - n,
                         hand := hand p @ [cardsToAuction a ! currentCardIndex a]\<rparr>)"
      and o: "\<forall>q. q \<noteq> w \<longrightarrow> getPlayer (pass s pid) q = getPlayer s q"
      and i: "cardIndexOf (pass s pid) = Some (Suc (currentCardIndex a))"
    by (elim exE conjE) (rule that)
  show ?thesis
    using who b z le p g o i
    by (intro exI [of _ w] exI [of _ p] exI [of _ n] conjI) assumption+
qed

theorem C2_pass_to_last_bidder_witness:
  "auction_reachable afterBidAndPass
   \<and> validatePass afterBidAndPass ''p3'' = Valid
   \<and> auction afterBidAndPass = Some bidAndPassAuction
   \<and> currentCardIndex bidAndPassAuction < length (cardsToAuction bidAndPassAuction)
   \<and> 2 \<le> set_size (activeBidders bidAndPassAuction)
   \<and> set_size (removeAll ''p3'' (activeBidders bidAndPassAuction)) = 1
   \<and> currentHighBidder bidAndPassAuction = Some ''p1''
   \<and> currentBid bidAndPassAuction = Some 2
   \<and> getPlayer afterBidAndPass ''p1'' = Some (mkPlayer ''p1'' [] [])
   \<and> getPlayer (pass afterBidAndPass ''p3'') ''p1''
       = Some ((mkPlayer ''p1'' [] [])\<lparr>cash := 3, hand := [mkCard ''r1'' ''Blue'']\<rparr>)
   \<and> getPlayer (pass afterBidAndPass ''p3'') ''p3'' = Some (mkPlayer ''p3'' [] [])
   \<and> cardIndexOf (pass afterBidAndPass ''p3'') = Some 1"
proof -
  have h1: "auction_reachable afterBidAndPass" by (rule example_reachable(3))
  have h2: "validatePass afterBidAndPass ''p3'' = Valid" by (rule example_validations(4))
  have h3: "auction afterBidAndPass = Some bidAndPassAuction" by simp
  have h4: "currentCardIndex bidAndPassAuction < length (cardsToAuction bidAndPassAuction)"
    by simp
  have h5: "2 \<le> set_size (activeBidders bidAndPassAuction)" by (simp add: set_size_def)
  have h6: "set_size (removeAll ''p3'' (activeBidders bidAndPassAuction)) = 1"
    by (simp add: set_size_def)
  have hb: "currentHighBidder bidAndPassAuction = Some ''p1''" by simp
  have cb: "currentBid bidAndPassAuction = Some 2" by simp
  have g1: "getPlayer afterBidAndPass ''p1'' = Some (mkPlayer ''p1'' [] [])"
    by (simp add: getPlayer_def)
  have g3: "getPlayer afterBidAndPass ''p3'' = Some (mkPlayer ''p3'' [] [])"
    by (simp add: getPlayer_def)
  note r = C2_pass_to_last_bidder [OF h1 h2 h3 h4 h5 h6]
  have c: "getPlayer (pass afterBidAndPass ''p3'') ''p1''
       = Some ((mkPlayer ''p1'' [] [])\<lparr>cash := 3, hand := [mkCard ''r1'' ''Blue'']\<rparr>)
      \<and> getPlayer (pass afterBidAndPass ''p3'') ''p3'' = Some (mkPlayer ''p3'' [] [])
      \<and> cardIndexOf (pass afterBidAndPass ''p3'') = Some 1"
    using r by (simp add: g1 g3) (auto simp: mkPlayer_def)
  show ?thesis
    using h1 h2 h3 h4 h5 h6 hb cb g1 c [THEN conjunct1] c [THEN conjunct2, THEN conjunct1]
      c [THEN conjunct2, THEN conjunct2]
    by (intro conjI) assumption+
qed

section \<open>Selecting cards to sell after committing\<close>

lemma sellPlayers_sel [simp]:
  "find (\<lambda>p. player_id p = ''p1'') sellPlayers
     = Some (mkPlayer ''p1'' [mkCard ''s1'' ''Blue'', mkCard ''s2'' ''Orange''] [])"
  "find (\<lambda>p. player_id p = ''p2'') sellPlayers = Some (mkPlayer ''p2'' [] [])"
  "find (\<lambda>p. player_id p = ''p3'') sellPlayers = Some (mkPlayer ''p3'' [] [])"
  by (simp_all add: sellPlayers_def mkPlayer_def)

lemma sellStart_sel [simp]:
  "players sellStart = sellPlayers"
  "currentPhase sellStart = Some SELL"
  "sell sellStart =
     Some \<lparr>playerSelections = [(''p1'', \<lparr>cardsToSell = [], committed = False\<rparr>),
                               (''p2'', \<lparr>cardsToSell = [], committed = False\<rparr>),
                               (''p3'', \<lparr>cardsToSell = [], committed = False\<rparr>)],
           allCommitted = False\<rparr>"
  by (simp_all add: sellStart_def initializeSell_def sellPlayers_def mkPlayer_def)

lemma sellCommitted_eval:
  "sellCommitted = sellStart\<lparr>sell :=
     Some \<lparr>playerSelections = [(''p1'', \<lparr>cardsToSell = [''s1''], committed = True\<rparr>),
                               (''p2'', \<lparr>cardsToSell = [], committed = False\<rparr>),
                               (''p3'', \<lparr>cardsToSell = [], committed = False\<rparr>)],
           allCommitted = False\<rparr>\<rparr>"
  by (simp add: sellCommitted_def selectCardsToSell_def commitSell_def Let_def)

lemma sellRevised_eval:
  "selectCardsToSell sellCommitted ''p1'' [''s1'', ''s2''] = sellStart\<lparr>sell :=
     Some \<lparr>playerSelections = [(''p1'', \<lparr>cardsToSell = [''s1'', ''s2''], committed = True\<rparr>),
                               (''p2'', \<lparr>cardsToSell = [], committed = False\<rparr>),
                               (''p3'', \<lparr>cardsToSell = [], committed = False\<rparr>)],
           allCommitted = False\<rparr>\<rparr>"
  unfolding sellCommitted_eval by (simp add: selectCardsToSell_def)

text \<open>
  C6 at the failing input: p1 has selected the Blue card and committed; a further
  select-cards-to-sell action of p1 passes validation (the validator of selections never
  looks at the committed flag, the validator of commits does) and replaces the recorded
  selection while the flag stays set; when p2 and p3 have committed, both cards of the
  revised selection are sold ($4 each) and p1 ends with $13.
\<close>

theorem C6_select_after_commit:
  "validateSellSelection sellStart ''p1'' [''s1''] = Valid
   \<and> validateSellCommit (selectCardsToSell sellStart ''p1'' [''s1'']) ''p1'' = Valid
   \<and> recordedSelection sellCommitted ''p1'' = Some \<lparr>cardsToSell = [''s1''], committed = True\<rparr>
   \<and> validateSellCommit sellCommitted ''p1'' = Invalid ''Already committed''
   \<and> validateSellSelection sellCommitted ''p1'' [''s1'', ''s2''] = Valid
   \<and> recordedSelection (selectCardsToSell sellCommitted ''p1'' [''s1'', ''s2'']) ''p1''
       = Some \<lparr>cardsToSell = [''s1'', ''s2''], committed = True\<rparr>
   \<and> map (\<lambda>p. (player_id p, cash p, hand p))
         (players (commitSell (commitSell
            (selectCardsToSell sellCommitted ''p1'' [''s1'', ''s2'']) ''p2'') ''p3''))
       = [(''p1'', 13, []), (''p2'', 5, []), (''p3'', 5, [])]"
proof -
  have a: "validateSellSelection sellStart ''p1'' [''s1''] = Valid"
    by (simp add: validateSellSelection_def getPlayer_def ownsAll_def mkPlayer_def mkCard_def)
  have b: "validateSellCommit (selectCardsToSell sellStart ''p1'' [''s1'']) ''p1'' = Valid"
    by (simp add: validateSellCommit_def selectCardsToSell_def)
  have c: "recordedSelection sellCommitted ''p1'' = Some \<lparr>cardsToSell = [''s1''], committed = True\<rparr>"
    unfolding sellCommitted_eval by (simp add: recordedSelection_def)
  have d: "validateSellCommit sellCommitted ''p1'' = Invalid ''Already committed''"
    unfolding sellCommitted_eval by (simp add: validateSellCommit_def)
  have e: "validateSellSelection sellCommitted ''p1'' [''s1'', ''s2''] = Valid"
    unfolding sellCommitted_eval
    by (simp add: validateSellSelection_def getPlayer_def ownsAll_def mkPlayer_def mkCard_def)
  have f: "recordedSelection (selectCardsToSell sellCommitted ''p1'' [''s1'', ''s2'']) ''p1''
       = Some \<lparr>cardsToSell = [''s1'', ''s2''], committed = True\<rparr>"
    unfolding sellRevised_eval by (simp add: recordedSelection_def)
  have g: "map (\<lambda>p. (player_id p, cash p, hand p))
         (players (commitSell (commitSell
            (selectCardsToSell sellCommitted ''p1'' [''s1'', ''s2'']) ''p2'') ''p3''))
       = [(''p1'', 13, []), (''p2'', 5, []), (''p3'', 5, [])]"
    unfolding sellRevised_eval
    by (simp add: commitSell_def executeSells_def objectEntries_def arrayIndex_def sellFor_def sellCard_def removeCardFromHand_def
        getPlayer_def adjustPlayerCash_def adjustCash_def discard_def Let_def
        sellPlayers_def mkPlayer_def mkCard_def exampleState_def sellStart_def initializeSell_def)
  show ?thesis using a b c d e f g by (intro conjI) assumption+
qed


section \<open>Revealing a goal\<close>





lemma goalResolution_adjustPlayerCash [simp]:
  "goalResolution (adjustPlayerCash s pid amt) = goalResolution s"
  by (simp add: adjustPlayerCash_def)

lemma goalResolution_addCardToHand [simp]:
  "goalResolution (addCardToHand s pid c) = goalResolution s"
  by (simp add: addCardToHand_def)




lemma goalStart_sel [simp]:
  "players goalStart = goalPlayers"
  "currentPhase goalStart = Some GOAL_RESOLUTION"
  "turnOrder goalStart = [''p1'', ''p2'', ''p3'']"
  "stockPrices goalStart = [''Blue'' \<mapsto> 4, ''Orange'' \<mapsto> 4, ''Yellow'' \<mapsto> 4, ''Purple'' \<mapsto> 4]"
  "nonNumberPrices goalStart = []"
  "goalResolution goalStart
     = Some \<lparr>gr_currentPlayerIndex = 0, revealedGoals = [], pendingRewardExecution = None\<rparr>"
  by (simp_all add: goalStart_def initializeGoalResolution_def goalPlayers_def mkPlayer_def)

lemma goalPlayers_find [simp]:
  "find (\<lambda>p. player_id p = ''p1'') goalPlayers
     = Some (mkPlayer ''p1'' [mkCard ''b1'' ''Blue'', mkCard ''b2'' ''Blue''] [blueGoal ''g1''])"
  by (simp add: goalPlayers_def mkPlayer_def)

lemma blueGoal_sel [simp]:
  "goal_id (blueGoal i) = i"
  "revealed (blueGoal i) = False"
  "stockChangeParsed (blueGoal i) = [(''Blue'', 2)]"
  "goalParsed (blueGoal i) = Some \<lparr>goalType = PAIR, requirements = [(''Blue'', 2)], avoidColor = []\<rparr>"
  "rewardParsed (blueGoal i) = \<lparr>rewardType = GAIN_CASH, amount = Some 1, discount = None, bonus = None,
                      requiresTarget = False, requiresChoice = False\<rparr>"
  by (simp_all add: blueGoal_def)



section \<open>Trades conserve value\<close>



lemma mset_removeFirst:
  "find P h = Some c \<Longrightarrow> mset (removeFirst P h) + {#c#} = mset h"
  by (induction h) (auto split: if_splits)










lemma fold_add_fields [simp]:
  "stockPrices (fold (\<lambda>c st. addCardToHand st b c) cs s) = stockPrices s"
  "trading (fold (\<lambda>c st. addCardToHand st b c) cs s) = trading s"
  by (induction cs arbitrary: s) (simp_all add: addCardToHand_def)



lemma handValueOf_adjustPlayerCash [simp]:
  "handValueOf (adjustPlayerCash s x amt) q = handValueOf s q"
proof -
  have "stockPrices (adjustPlayerCash s x amt) = stockPrices s"
    by (simp add: adjustPlayerCash_def)
  then show ?thesis
    by (cases "getPlayer s x")
       (auto simp: handValueOf_def getPlayer_adjustPlayerCash adjustCash_max split: option.splits)
qed




lemma getPlayer_autoCancel [simp]:
  "getPlayer (autoCancelInvalidOffers s x) q = getPlayer s q"
  by (rule getPlayer_cong) (simp add: autoCancelInvalidOffers_def split: option.splits)

lemma fields_autoCancel [simp]:
  "players (autoCancelInvalidOffers s x) = players s"
  "stockPrices (autoCancelInvalidOffers s x) = stockPrices s"
  by (simp_all add: autoCancelInvalidOffers_def split: option.splits)


lemma offerBacked_cong:
  "(\<And>q. getPlayer t q = getPlayer s q) \<Longrightarrow> offerBacked t x = offerBacked s x"
  by (simp add: offerBacked_def)

lemma offerBacked_trading [simp]: "offerBacked (s\<lparr>trading := x\<rparr>) = offerBacked s"
  by (rule ext, rule offerBacked_cong, rule getPlayer_cong) simp








lemma tradeStart_sel [simp]:
  "players tradeStart = tradePlayers"
  "currentPhase tradeStart = Some TRADING"
  "trading tradeStart = Some \<lparr>activeOffers = [], timeRemaining = 120000\<rparr>"
  by (simp_all add: tradeStart_def transitionToPhase_def initializePhase_def
      initializeTrading_def cleanupPhase_def exampleState_def)

lemma tradeOffered_sel [simp]:
  "players tradeOffered = tradePlayers"
  "currentPhase tradeOffered = Some TRADING"
  "trading tradeOffered = Some \<lparr>activeOffers = [tradeOffer], timeRemaining = 120000\<rparr>"
  "stockPrices tradeOffered
     = [''Blue'' \<mapsto> 4, ''Orange'' \<mapsto> 4, ''Yellow'' \<mapsto> 4, ''Purple'' \<mapsto> 4]"
  by (simp_all add: tradeOffered_def proposeTrade_def tradeOffer_def tradeStart_def
      transitionToPhase_def initializePhase_def initializeTrading_def cleanupPhase_def
      exampleState_def)

lemma tradePlayers_find [simp]:
  "find (\<lambda>p. player_id p = ''p1'') tradePlayers = Some (mkPlayer ''p1'' [mkCard ''b1'' ''Blue''] [])"
  "find (\<lambda>p. player_id p = ''p2'') tradePlayers
     = Some (mkPlayer ''p2'' [mkCard ''o1'' ''Orange'', mkCard ''o2'' ''Orange''] [])"
  by (simp_all add: tradePlayers_def mkPlayer_def)



end
